theory Spec2Isabelle
  imports Complex_Main "HOL-Library.AList"
begin

section \<open>Wire skin: a shallow embedding of wire\_skin.py\<close>

text \<open>
  The source builds a tube mesh around a wireframe with Blender's \<open>bmesh\<close> and
  \<open>mathutils\<close>. Python and mathutils floating-point numbers are idealised as reals:
  every branch of the source that compares numbers is kept, with the source's constants,
  but rounding is not modelled. Python exceptions are values of the type \<open>error\<close>; a
  function that can raise returns \<open>error + 'a\<close>, and the state an exception leaves
  behind is not modelled.
\<close>

subsection \<open>Exceptions\<close>

datatype error = AttributeError | TypeError | IndexError | KeyError | ValueError | ReferenceError

definition ebind :: "error + 'a \<Rightarrow> ('a \<Rightarrow> error + 'b) \<Rightarrow> error + 'b" where
  "ebind m f = (case m of Inl e \<Rightarrow> Inl e | Inr x \<Rightarrow> f x)"

text \<open>A loop over a list whose body may raise: the first exception ends the loop.\<close>

fun for_each :: "('a \<Rightarrow> 's \<Rightarrow> error + 's) \<Rightarrow> 'a list \<Rightarrow> 's \<Rightarrow> error + 's" where
  "for_each f [] s = Inr s"
| "for_each f (x # xs) s = ebind (f x s) (for_each f xs)"

text \<open>Python's \<open>xs[i]\<close> for a non-negative index: IndexError out of range.\<close>

definition py_nth :: "'a list \<Rightarrow> nat \<Rightarrow> error + 'a" where
  "py_nth xs i = (if i < length xs then Inr (xs ! i) else Inl IndexError)"

fun py_nths :: "'a list \<Rightarrow> nat list \<Rightarrow> error + 'a list" where
  "py_nths xs [] = Inr []"
| "py_nths xs (i # is) =
     ebind (py_nth xs i) (\<lambda>x. ebind (py_nths xs is) (\<lambda>ys. Inr (x # ys)))"

subsection \<open>mathutils: vectors and 3x3 matrices\<close>

type_synonym Vector = "real \<times> real \<times> real"

fun vx :: "Vector \<Rightarrow> real" where "vx (x, y, z) = x"
fun vy :: "Vector \<Rightarrow> real" where "vy (x, y, z) = y"
fun vz :: "Vector \<Rightarrow> real" where "vz (x, y, z) = z"

fun vadd :: "Vector \<Rightarrow> Vector \<Rightarrow> Vector" where
  "vadd (a, b, c) (x, y, z) = (a + x, b + y, c + z)"

fun vsub :: "Vector \<Rightarrow> Vector \<Rightarrow> Vector" where
  "vsub (a, b, c) (x, y, z) = (a - x, b - y, c - z)"

fun vneg :: "Vector \<Rightarrow> Vector" where
  "vneg (x, y, z) = (- x, - y, - z)"

fun smul :: "Vector \<Rightarrow> real \<Rightarrow> Vector" where
  "smul (x, y, z) k = (x * k, y * k, z * k)"

text \<open>\<open>a * b\<close> on two vectors is the dot product in the mathutils the source targets.\<close>

fun dot :: "Vector \<Rightarrow> Vector \<Rightarrow> real" where
  "dot (a, b, c) (x, y, z) = a * x + b * y + c * z"

fun cross :: "Vector \<Rightarrow> Vector \<Rightarrow> Vector" where
  "cross (a, b, c) (x, y, z) = (b * z - c * y, c * x - a * z, a * y - b * x)"

definition magnitude :: "Vector \<Rightarrow> real" where
  "magnitude v = sqrt (dot v v)"

text \<open>Normalising the zero vector leaves it zero (the documented mathutils behaviour).\<close>

definition normalized :: "Vector \<Rightarrow> Vector" where
  "normalized v = (if magnitude v = 0 then (0, 0, 0) else smul v (1 / magnitude v))"

type_synonym Matrix = "Vector \<times> Vector \<times> Vector"

fun transpose_m :: "Matrix \<Rightarrow> Matrix" where
  "transpose_m ((a, b, c), (d, e, f), (g, h, i)) = ((a, d, g), (b, e, h), (c, f, i))"

fun determinant :: "Matrix \<Rightarrow> real" where
  "determinant ((a, b, c), (d, e, f), (g, h, i)) =
     a * (e * i - f * h) - b * (d * i - f * g) + c * (d * h - e * g)"

text \<open>\<open>Matrix.invert()\<close> raises ValueError on a matrix that has no inverse.\<close>

fun invert :: "Matrix \<Rightarrow> error + Matrix" where
  "invert ((a, b, c), (d, e, f), (g, h, i)) =
     (let det = determinant ((a, b, c), (d, e, f), (g, h, i)) in
      if det = 0 then Inl ValueError
      else Inr (((e * i - f * h) / det, (c * h - b * i) / det, (b * f - c * e) / det),
                ((f * g - d * i) / det, (a * i - c * g) / det, (c * d - a * f) / det),
                ((d * h - e * g) / det, (b * g - a * h) / det, (a * e - b * d) / det)))"

fun mat_mul_vec :: "Matrix \<Rightarrow> Vector \<Rightarrow> Vector" where
  "mat_mul_vec (r1, r2, r3) v = (dot r1 v, dot r2 v, dot r3 v)"

text \<open>\<open>math.atan2(y, x)\<close>, the angle of the point \<open>(x, y)\<close> in \<open>(-pi, pi]\<close>.\<close>

definition atan2 :: "real \<Rightarrow> real \<Rightarrow> real" where
  "atan2 y x =
     (if 0 < x then arctan (y / x)
      else if x < 0 then (if 0 \<le> y then arctan (y / x) + pi else arctan (y / x) - pi)
      else if 0 < y then pi / 2
      else if y < 0 then - (pi / 2)
      else 0)"

subsection \<open>bmesh: the mesh under construction\<close>

text \<open>
  A \<open>BMVert\<close> is its position in \<open>bm_verts\<close>; a face is the list of its vertices; an edge
  exists between two vertices once a face has them next to each other, and is named by
  the ordered pair of its ends. Using a freed bmesh raises ReferenceError;
  \<open>faces.new\<close> raises ValueError for a repeated vertex and for a face that exists.
\<close>

record bmesh =
  bm_verts :: "Vector list"
  bm_faces :: "nat list list"
  bm_crease :: "nat \<times> nat \<rightharpoonup> real"
  bm_crease_layer :: bool
  bm_valid :: bool

definition bmesh_new :: bmesh where
  "bmesh_new = \<lparr>bm_verts = [], bm_faces = [], bm_crease = Map.empty,
                 bm_crease_layer = False, bm_valid = True\<rparr>"

definition verts_new :: "bmesh \<Rightarrow> Vector \<Rightarrow> error + nat \<times> bmesh" where
  "verts_new bm co =
     (if \<not> bm_valid bm then Inl ReferenceError
      else Inr (length (bm_verts bm), bm\<lparr>bm_verts := bm_verts bm @ [co]\<rparr>))"

definition vert_co :: "bmesh \<Rightarrow> nat \<Rightarrow> error + Vector" where
  "vert_co bm h =
     (if \<not> bm_valid bm \<or> length (bm_verts bm) \<le> h then Inl ReferenceError
      else Inr (bm_verts bm ! h))"

definition faces_new :: "bmesh \<Rightarrow> nat list \<Rightarrow> error + bmesh" where
  "faces_new bm vs =
     (if \<not> bm_valid bm then Inl ReferenceError
      else if length vs < 3 \<or> \<not> distinct vs then Inl ValueError
      else if list_ex (\<lambda>f. set f = set vs) (bm_faces bm) then Inl ValueError
      else Inr (bm\<lparr>bm_faces := bm_faces bm @ [vs]\<rparr>))"

definition edge_key :: "nat \<Rightarrow> nat \<Rightarrow> nat \<times> nat" where
  "edge_key a b = (min a b, max a b)"

fun face_edges :: "nat list \<Rightarrow> (nat \<times> nat) list" where
  "face_edges [] = []"
| "face_edges (v # vs) = map2 edge_key (v # vs) (vs @ [v])"

text \<open>\<open>bm.edges.get([a, b])\<close>: the edge, or None when there is none.\<close>

definition edges_get :: "bmesh \<Rightarrow> nat \<Rightarrow> nat \<Rightarrow> error + (nat \<times> nat) option" where
  "edges_get bm a b =
     (if \<not> bm_valid bm then Inl ReferenceError
      else if list_ex (\<lambda>f. edge_key a b \<in> set (face_edges f)) (bm_faces bm)
      then Inr (Some (edge_key a b)) else Inr None)"

text \<open>\<open>edge[crease_layer] = value\<close>; the edge may be None, the value may be None.\<close>

definition set_crease :: "bmesh \<Rightarrow> (nat \<times> nat) option \<Rightarrow> real option \<Rightarrow> error + bmesh" where
  "set_crease bm edge val =
     (case edge of None \<Rightarrow> Inl TypeError
      | Some e \<Rightarrow>
          if \<not> bm_valid bm then Inl ReferenceError
          else (case val of None \<Rightarrow> Inl TypeError
                | Some x \<Rightarrow> Inr (bm\<lparr>bm_crease := (bm_crease bm)(e \<mapsto> x)\<rparr>)))"

subsection \<open>The input wireframe and the options\<close>

text \<open>
  A mesh vertex is its position, a mesh edge its two vertex indices; the \<open>index\<close> of
  either is its place in the mesh's list.
\<close>

record wire_mesh =
  vertices :: "Vector list"
  edges :: "(nat \<times> nat) list"

record mesh_edge =
  edge_vertices :: "nat \<times> nat"
  edge_index :: nat

definition mesh_edges :: "wire_mesh \<Rightarrow> mesh_edge list" where
  "mesh_edges m =
     map (\<lambda>(k, vs). \<lparr>edge_vertices = vs, edge_index = k\<rparr>) (enumerate 0 (edges m))"

text \<open>
  The keyword arguments, with \<open>None\<close> for an absent key. For \<open>crease\<close> and \<open>displace\<close>
  an explicit Python None is read back by the source exactly as an absent key is.
\<close>

record kwargs =
  kw_width :: "real option"
  kw_height :: "real option"
  kw_dist :: "real option"
  kw_radius :: "real option"
  kw_inside_radius :: "real option"
  kw_outside_radius :: "real option"
  kw_crease :: "real option"
  kw_displace :: "real option"
  kw_proportional_scale :: "bool option"

definition no_kwargs :: kwargs where
  "no_kwargs = \<lparr>kw_width = None, kw_height = None, kw_dist = None, kw_radius = None,
                 kw_inside_radius = None, kw_outside_radius = None, kw_crease = None,
                 kw_displace = None, kw_proportional_scale = None\<rparr>"

text \<open>The value of the attribute \<open>dist\<close>: a float, or the tuple that \<open>0,25\<close> denotes.\<close>

datatype pyval = PyFloat real | PyTuple "int list"

text \<open>\<open>x * scale\<close> for a float \<open>scale\<close>: a tuple times a float is a TypeError.\<close>

fun py_mul_float :: "pyval \<Rightarrow> real \<Rightarrow> error + real" where
  "py_mul_float (PyFloat x) k = Inr (x * k)"
| "py_mul_float (PyTuple xs) k = Inl TypeError"

text \<open>Truth value of an optional float: None and 0.0 are false.\<close>

fun truthy :: "real option \<Rightarrow> bool" where
  "truthy None = False"
| "truthy (Some x) = (x \<noteq> 0)"

text \<open>\<open>if self.displace: x += self.displace\<close>\<close>

fun add_displace :: "real option \<Rightarrow> real \<Rightarrow> real" where
  "add_displace None x = x"
| "add_displace (Some d) x = (if d \<noteq> 0 then x + d else x)"

subsection \<open>VertCap\<close>

record edge_vert =
  ev_v :: Vector
  ev_i :: nat
  ev_e :: mesh_edge
  ev_l :: real

record vert_cap =
  input_vert :: Vector
  bm :: nat
  input_edge_verts :: "edge_vert list"
  width_2 :: real
  height_2 :: real
  dist_attr :: pyval
  inside_radius :: real
  outside_radius :: real
  crease :: "real option"
  displace :: "real option"
  proportional_scale :: bool
  poles :: "nat list"
  normal :: "Vector option"
  profiles :: "nat list list"
  edge_profile_map :: "nat \<rightharpoonup> nat list"
  creased_edges :: "(nat \<times> nat) option list"

text \<open>
  \<open>VertCap.__init__\<close>. The attribute \<open>self.radius\<close> is never assigned, so reading it
  raises AttributeError; the key \<open>radius\<close> of the options is never looked at.
\<close>

definition VertCap_init :: "Vector \<Rightarrow> nat \<Rightarrow> kwargs \<Rightarrow> error + vert_cap" where
  "VertCap_init co b kw =
     (let w2 = (case kw_width kw of Some w \<Rightarrow> w / 2 | None \<Rightarrow> 0.1);
          h2 = (case kw_height kw of Some h \<Rightarrow> h / 2 | None \<Rightarrow> w2);
          d = (case kw_dist kw of Some x \<Rightarrow> PyFloat x | None \<Rightarrow> PyTuple [0, 25])
      in ebind (case kw_inside_radius kw of Some r \<Rightarrow> Inr r | None \<Rightarrow> Inl AttributeError)
         (\<lambda>ir. ebind (case kw_outside_radius kw of Some r \<Rightarrow> Inr r | None \<Rightarrow> Inl AttributeError)
         (\<lambda>orad. Inr \<lparr>input_vert = co, bm = b, input_edge_verts = [],
                     width_2 = w2, height_2 = h2, dist_attr = d,
                     inside_radius = ir, outside_radius = orad,
                     crease = kw_crease kw, displace = kw_displace kw,
                     proportional_scale = (kw_proportional_scale kw = Some True),
                     poles = [], normal = None, profiles = [],
                     edge_profile_map = Map.empty, creased_edges = []\<rparr>)))"

definition add_edge_vert :: "vert_cap \<Rightarrow> mesh_edge \<Rightarrow> Vector \<Rightarrow> nat \<Rightarrow> vert_cap" where
  "add_edge_vert c edge co idx =
     c\<lparr>input_edge_verts := input_edge_verts c @
          [\<lparr>ev_v = co, ev_i = idx, ev_e = edge, ev_l = magnitude (vsub (input_vert c) co)\<rparr>]\<rparr>"

definition diff_average :: "Vector list \<Rightarrow> Vector" where
  "diff_average ds = smul (fold (\<lambda>d vave. vadd vave d) ds (0, 0, 0)) (1 / real (length ds))"

text \<open>The six sums of the covariance matrix, one step of the loop over the directions.\<close>

fun cov_step :: "Vector \<Rightarrow> Vector \<Rightarrow> real \<times> real \<times> real \<times> real \<times> real \<times> real
                  \<Rightarrow> real \<times> real \<times> real \<times> real \<times> real \<times> real" where
  "cov_step centroid p (xx, xy, xz, yy, yz, zz) =
     (let r = vsub p centroid in
      (xx + vx r * vx r, xy + vx r * vy r, xz + vx r * vz r,
       yy + vy r * vy r, yz + vy r * vz r, zz + vz r * vz r))"

definition covariance :: "Vector \<Rightarrow> Vector list \<Rightarrow> real \<times> real \<times> real \<times> real \<times> real \<times> real" where
  "covariance centroid ds = fold (cov_step centroid) ds (0, 0, 0, 0, 0, 0)"

text \<open>\<open>det_x\<close>, \<open>det_y\<close> and \<open>det_z\<close> of the covariance sums.\<close>

fun minor_dets :: "real \<times> real \<times> real \<times> real \<times> real \<times> real \<Rightarrow> real \<times> real \<times> real" where
  "minor_dets (xx, xy, xz, yy, yz, zz) =
     (yy * zz - yz * yz, xx * zz - xz * xz, xx * yy - xy * xy)"

fun det_max :: "real \<times> real \<times> real \<Rightarrow> real" where
  "det_max (det_x, det_y, det_z) = max \<bar>det_x\<bar> (max \<bar>det_y\<bar> \<bar>det_z\<bar>)"

fun fitted_normal :: "real \<times> real \<times> real \<times> real \<times> real \<times> real \<Rightarrow> Vector" where
  "fitted_normal (xx, xy, xz, yy, yz, zz) =
     (case minor_dets (xx, xy, xz, yy, yz, zz) of (det_x, det_y, det_z) \<Rightarrow>
        if det_max (det_x, det_y, det_z) = \<bar>det_x\<bar>
        then (1, (xz * yz - xy * zz) / det_x, (xy * yz - xz * yy) / det_x)
        else if det_max (det_x, det_y, det_z) = \<bar>det_y\<bar>
        then ((yz * xz - xy * zz) / det_y, 1, (xy * xz - yz * xx) / det_y)
        else ((yz * xy - xz * yy) / det_z, (xz * xy - yz * xx) / det_z, 1))"

definition least_squares_normal :: "Vector \<Rightarrow> Vector list \<Rightarrow> Vector" where
  "least_squares_normal vave ds =
     (let cov = covariance vave ds in
      if det_max (minor_dets cov) < 0.00001 then vave
      else let nrm = fitted_normal cov
           in if dot vave nrm < 0 then vneg nrm else nrm)"

definition edge_dirs :: "vert_cap \<Rightarrow> Vector list" where
  "edge_dirs c = map (\<lambda>ev. normalized (vsub (ev_v ev) (input_vert c))) (input_edge_verts c)"

definition pole_scale :: "vert_cap \<Rightarrow> real" where
  "pole_scale c =
     (if proportional_scale c
      then fold (\<lambda>ev s. s + ev_l ev) (input_edge_verts c) 0
             * (1 / real (length (input_edge_verts c)))
      else 1)"

definition create_pole_verts :: "vert_cap \<Rightarrow> bmesh \<Rightarrow> error + vert_cap \<times> bmesh" where
  "create_pole_verts c b =
     (if length (input_edge_verts c) = 0 then Inr (c, b)
      else
        let ds = edge_dirs c; vave = diff_average ds in
        if magnitude vave > 0.0000001 then
          let n = (if length (input_edge_verts c) < 3 then vneg (normalized vave)
                   else vneg (normalized (least_squares_normal vave ds)));
              scale = pole_scale c;
              mult = add_displace (displace c) (outside_radius c * scale)
          in ebind (verts_new b (vadd (input_vert c) (smul n mult)))
               (\<lambda>(v1, b1).
                  let c1 = c\<lparr>normal := Some n, poles := poles c @ [v1]\<rparr> in
                  if length (input_edge_verts c) > 1 then
                    let mult2 = add_displace (displace c) (- inside_radius c * scale)
                    in ebind (verts_new b1 (vadd (input_vert c) (smul n mult2)))
                         (\<lambda>(v2, b2). Inr (c1\<lparr>poles := poles c1 @ [v2]\<rparr>, b2))
                  else Inr (c1, b1))
        else Inr (c, b))"

text \<open>
  The angle of an edge vertex around the pole, as the loop of \<open>reorder_edge_verts\<close>
  computes it.
\<close>

definition edge_theta :: "Matrix \<Rightarrow> Vector \<Rightarrow> edge_vert \<Rightarrow> real" where
  "edge_theta mat origin ev =
     (let v = mat_mul_vec mat (vsub (ev_v ev) origin);
          theta = atan2 (vy v) (vx v)
      in if theta < 0 then theta + 2 * pi else theta)"

text \<open>
  \<open>reorder_edge_verts\<close>. The dictionary \<open>theta_edge_verts\<close> is an association list:
  storing under a key that is present replaces the value. Its keys are distinct, so
  sorting the pairs by key is the source's walk over \<open>sorted(theta_edge_verts)\<close>.
\<close>

definition reorder_edge_verts :: "vert_cap \<Rightarrow> error + vert_cap" where
  "reorder_edge_verts c =
     (if length (input_edge_verts c) < 2 then Inr c
      else case normal c of None \<Rightarrow> Inl AttributeError
      | Some to_z \<Rightarrow>
          let vedge = vsub (ev_v (hd (input_edge_verts c))) (input_vert c);
              to_y = normalized (cross to_z vedge);
              to_x = normalized (cross to_y to_z)
          in ebind (invert (transpose_m (to_x, to_y, to_z)))
               (\<lambda>mat.
                  let theta_edge_verts =
                        fold (\<lambda>ev d. AList.update (edge_theta mat (input_vert c) ev) ev d)
                          (tl (input_edge_verts c)) [];
                      sorted_edge_verts =
                        hd (input_edge_verts c) # map snd (sort_key fst theta_edge_verts)
                  in Inr (c\<lparr>input_edge_verts := sorted_edge_verts\<rparr>)))"

text \<open>The blended pole direction of a profile; None times a float is a TypeError.\<close>

definition blend_normals :: "Vector option \<Rightarrow> Vector option \<Rightarrow> real \<Rightarrow> error + Vector" where
  "blend_normals n other proportion =
     (case n of None \<Rightarrow> Inl TypeError
      | Some a \<Rightarrow> (case other of None \<Rightarrow> Inl TypeError
          | Some b \<Rightarrow> Inr (vadd (smul a (1 - proportion)) (smul b proportion))))"

definition create_profile ::
  "vert_cap \<Rightarrow> bmesh \<Rightarrow> edge_vert \<Rightarrow> Vector option \<Rightarrow> error + vert_cap \<times> bmesh" where
  "create_profile c b ev other_normal =
     (let scale = (if proportional_scale c then ev_l ev else 1) in
      ebind (py_mul_float (dist_attr c) scale)
        (\<lambda>dist.
      let w2 = width_2 c * scale;
          h2 = height_2 c * scale;
          etangent0 = vsub (ev_v ev) (input_vert c)
      in ebind (if magnitude etangent0 > 0.000001
                then ebind (blend_normals (normal c) other_normal
                              (min 0.5 (dist / magnitude etangent0)))
                       (\<lambda>v. Inr (Some v))
                else Inr (normal c))
        (\<lambda>vpole0.
      let etangent = normalized etangent0;
          ecenter0 = vadd (input_vert c) (smul etangent dist);
          vpole1 = (if length (input_edge_verts c) < 2
                    then (if \<bar>\<bar>dot (1, 0, 0) etangent\<bar> - magnitude etangent\<bar> > 0.0001
                          then Some (vadd etangent (1, 0, 0))
                          else Some (vadd etangent (1, 1, 0)))
                    else vpole0)
      in ebind (case vpole1 of None \<Rightarrow> Inl AttributeError | Some v \<Rightarrow> Inr v)
        (\<lambda>vpole.
      let ebinormal = smul (normalized (cross vpole etangent)) w2;
          enormal0 = normalized (cross etangent ebinormal);
          ecenter = (case displace c of None \<Rightarrow> ecenter0
                     | Some d \<Rightarrow> if d \<noteq> 0 then vadd ecenter0 (smul enormal0 d) else ecenter0);
          enormal = smul enormal0 h2
      in ebind (verts_new b (vadd (vadd ecenter enormal) ebinormal)) (\<lambda>(v1, b1).
         ebind (verts_new b1 (vsub (vadd ecenter enormal) ebinormal)) (\<lambda>(v2, b2).
         ebind (verts_new b2 (vsub (vsub ecenter enormal) ebinormal)) (\<lambda>(v3, b3).
         ebind (verts_new b3 (vadd (vsub ecenter enormal) ebinormal)) (\<lambda>(v4, b4).
         let profile = [v1, v2, v3, v4] in
         Inr (c\<lparr>profiles := profiles c @ [profile],
                 edge_profile_map := (edge_profile_map c)(edge_index (ev_e ev) \<mapsto> profile)\<rparr>,
              b4)))))))))"

text \<open>
  \<open>create_profiles\<close>; \<open>normals\<close> is the attribute \<open>normal\<close> of every cap of
  \<open>vert_caps\<close>, which this phase only reads.
\<close>

definition create_profiles ::
  "Vector option list \<Rightarrow> vert_cap \<Rightarrow> bmesh \<Rightarrow> error + vert_cap \<times> bmesh" where
  "create_profiles normals c b =
     (if length (input_edge_verts c) = 0 then Inr (c, b)
      else ebind (reorder_edge_verts c)
             (\<lambda>c1. for_each
                     (\<lambda>ev (c2, b2). ebind (py_nth normals (ev_i ev))
                                       (\<lambda>other_normal. create_profile c2 b2 ev other_normal))
                     (input_edge_verts c1) (c1, b)))"

definition get_edge_profile :: "vert_cap \<Rightarrow> mesh_edge \<Rightarrow> error + nat list" where
  "get_edge_profile c edge =
     (case edge_profile_map c (edge_index edge) of None \<Rightarrow> Inl KeyError | Some p \<Rightarrow> Inr p)"

text \<open>\<open>bm.faces.new([xs[i] for i in is] ...)\<close>: the elements are read, then the face is made.\<close>

definition new_face :: "(nat list \<times> nat) list \<Rightarrow> bmesh \<Rightarrow> error + bmesh" where
  "new_face picks b =
     ebind (for_each (\<lambda>(xs, i) vs. ebind (py_nth xs i) (\<lambda>v. Inr (vs @ [v]))) picks [])
       (faces_new b)"

text \<open>\<open>bm.edges.get([xs[i], ys[j]])\<close>\<close>

definition get_edge ::
  "nat list \<times> nat \<Rightarrow> nat list \<times> nat \<Rightarrow> bmesh \<Rightarrow> error + (nat \<times> nat) option" where
  "get_edge p q b =
     ebind (py_nth (fst p) (snd p)) (\<lambda>x. ebind (py_nth (fst q) (snd q)) (\<lambda>y. edges_get b x y))"

definition create_pole_faces :: "vert_cap \<Rightarrow> bmesh \<Rightarrow> error + bmesh" where
  "create_pole_faces c b =
     for_each
       (\<lambda>profile b1.
          if length (input_edge_verts c) > 1 then
            ebind (new_face [(poles c, 1), (profile, 3), (profile, 2)] b1)
              (new_face [(poles c, 0), (profile, 1), (profile, 0)])
          else
            for_each (\<lambda>i. new_face [(poles c, 0), (profile, (i + 1) mod 4), (profile, i)])
              [0 ..< 4] b1)
       (profiles c) b"

text \<open>
  \<open>create_inter_profile_faces\<close>: the state of the loop is the cap (its list of
  creased edges grows) and the bmesh.
\<close>

definition inter_profile_step :: "nat \<Rightarrow> vert_cap \<times> bmesh \<Rightarrow> error + vert_cap \<times> bmesh" where
  "inter_profile_step i = (\<lambda>(c, b).
     let num_profiles = length (profiles c);
         next_i = (i + 1) mod num_profiles
     in ebind (py_nth (profiles c) i) (\<lambda>this_profile.
        ebind (py_nth (profiles c) next_i) (\<lambda>next_profile.
        ebind (new_face [(poles c, 0), (this_profile, 0), (next_profile, 1)] b) (\<lambda>b1.
        ebind (new_face [(poles c, 1), (next_profile, 2), (this_profile, 3)] b1) (\<lambda>b2.
        ebind (new_face [(this_profile, 0), (this_profile, 3),
                         (next_profile, 2), (next_profile, 1)] b2) (\<lambda>b3.
        if crease c \<noteq> None then
          ebind (get_edge (this_profile, 0) (next_profile, 1) b3) (\<lambda>e1.
          ebind (get_edge (next_profile, 2) (this_profile, 3) b3) (\<lambda>e2.
          Inr (c\<lparr>creased_edges := creased_edges c @ [e1, e2]\<rparr>, b3)))
        else Inr (c, b3)))))))"

definition create_inter_profile_faces :: "vert_cap \<Rightarrow> bmesh \<Rightarrow> error + vert_cap \<times> bmesh" where
  "create_inter_profile_faces c b =
     (if length (input_edge_verts c) < 2 then Inr (c, b)
      else for_each inter_profile_step [0 ..< length (profiles c)] (c, b))"

text \<open>\<open>VertCap.crease_edges\<close>\<close>

definition crease_edges :: "vert_cap \<Rightarrow> bmesh \<Rightarrow> error + bmesh" where
  "crease_edges c b = for_each (\<lambda>edge b1. set_crease b1 edge (crease c)) (creased_edges c) b"

subsection \<open>ProfileConnector\<close>

text \<open>
  The attribute \<open>vert_caps\<close> of a connector is the list of the WireSkin itself; the
  model passes that list to \<open>join_profiles\<close>.
\<close>

record profile_connector =
  pc_edge :: mesh_edge
  pc_bm :: nat
  pc_crease :: "real option"
  pc_creased_edges :: "(nat \<times> nat) option list"

definition ProfileConnector_init :: "mesh_edge \<Rightarrow> nat \<Rightarrow> kwargs \<Rightarrow> profile_connector" where
  "ProfileConnector_init edge b kw =
     \<lparr>pc_edge = edge, pc_bm = b, pc_crease = kw_crease kw, pc_creased_edges = []\<rparr>"

text \<open>The search for the nearest vertex: \<open>min_len\<close> and \<open>min_i\<close> over \<open>lengths\<close>.\<close>

definition nearest_index :: "real list \<Rightarrow> real \<Rightarrow> nat" where
  "nearest_index lengths l0 =
     snd (fold (\<lambda>i (min_len, min_i).
                  if lengths ! i < min_len then (lengths ! i, i) else (min_len, min_i))
            [1 ..< length lengths] (l0, 0))"

text \<open>Python's \<open>%\<close> on integers, with the positive modulus 4.\<close>

definition mod4 :: "int \<Rightarrow> nat" where
  "mod4 k = nat (k mod 4)"

text \<open>The bmesh objects of the interpreter, by reference.\<close>

definition bm_deref :: "bmesh list \<Rightarrow> nat \<Rightarrow> error + bmesh" where
  "bm_deref bms r = (if r < length bms then Inr (bms ! r) else Inl ReferenceError)"

text \<open>\<open>Vector(loop[k].co)\<close> for a profile vertex of the cap \<open>c\<close>.\<close>

definition profile_co :: "bmesh list \<Rightarrow> vert_cap \<Rightarrow> nat list \<Rightarrow> nat \<Rightarrow> error + Vector" where
  "profile_co bms c loop k =
     ebind (py_nth loop k) (\<lambda>h. ebind (bm_deref bms (bm c)) (\<lambda>b. vert_co b h))"

text \<open>
  One round of the last loop of \<open>join_profiles\<close>. Vertices of another bmesh cannot make
  a face (ValueError).
\<close>

definition join_step ::
  "vert_cap \<Rightarrow> vert_cap \<Rightarrow> nat list \<Rightarrow> nat list \<Rightarrow> nat \<Rightarrow> nat \<Rightarrow> int \<Rightarrow> nat
     \<Rightarrow> profile_connector \<times> bmesh list \<Rightarrow> error + profile_connector \<times> bmesh list" where
  "join_step vc0 vc1 loop0 loop1 min_i min_i2 mult idx = (\<lambda>(pc, bms).
     let idx1 = (idx + 1) mod 4;
         idx2 = mod4 (int min_i2 + mult * int idx);
         idx3 = mod4 (int min_i + mult * int idx)
     in ebind (bm_deref bms (pc_bm pc)) (\<lambda>b.
        if bm vc0 \<noteq> pc_bm pc \<or> bm vc1 \<noteq> pc_bm pc then Inl ValueError
        else
        ebind (new_face [(loop0, idx), (loop0, idx1), (loop1, idx2), (loop1, idx3)] b) (\<lambda>b1.
        if pc_crease pc \<noteq> None then
          ebind (get_edge (loop0, idx1) (loop1, idx2) b1) (\<lambda>e.
          Inr (pc\<lparr>pc_creased_edges := pc_creased_edges pc @ [e]\<rparr>, bms[pc_bm pc := b1]))
        else Inr (pc, bms[pc_bm pc := b1]))))"

definition join_profiles ::
  "vert_cap list \<Rightarrow> profile_connector \<Rightarrow> bmesh list \<Rightarrow> error + profile_connector \<times> bmesh list" where
  "join_profiles caps pc bms =
     ebind (py_nth caps (fst (edge_vertices (pc_edge pc)))) (\<lambda>vc0.
     ebind (py_nth caps (snd (edge_vertices (pc_edge pc)))) (\<lambda>vc1.
     ebind (get_edge_profile vc0 (pc_edge pc)) (\<lambda>loop0.
     ebind (get_edge_profile vc1 (pc_edge pc)) (\<lambda>loop1.
     ebind (profile_co bms vc0 loop0 0) (\<lambda>v0.
     ebind (profile_co bms vc0 loop0 1) (\<lambda>v1.
     ebind (for_each (\<lambda>k ps. ebind (profile_co bms vc1 loop1 k) (\<lambda>p. Inr (ps @ [p])))
              [0 ..< length loop1] []) (\<lambda>vloop1.
     let lengths = map (\<lambda>p. magnitude (vsub v0 p)) vloop1 in
     ebind (py_nth lengths 0) (\<lambda>l0.
     let min_i = nearest_index lengths l0 in
     ebind (py_nth vloop1 ((min_i + 1) mod 4)) (\<lambda>p1.
     ebind (py_nth vloop1 (mod4 (int min_i - 1))) (\<lambda>p2.
     let len1 = magnitude (vsub p1 v1);
         len2 = magnitude (vsub p2 v1);
         min_i2 = (if len1 < len2 then (min_i + 1) mod 4 else mod4 (int min_i - 1));
         mult = (if len1 < len2 then 1 else - 1)
     in for_each (join_step vc0 vc1 loop0 loop1 min_i min_i2 mult) [0 ..< 4] (pc, bms)
     ))))))))))"

text \<open>\<open>ProfileConnector.crease_edges\<close>: the value written is the constant 1.0.\<close>

definition pc_crease_edges :: "profile_connector \<Rightarrow> bmesh \<Rightarrow> error + bmesh" where
  "pc_crease_edges pc b = for_each (\<lambda>edge b1. set_crease b1 edge (Some 1)) (pc_creased_edges pc) b"

subsection \<open>WireSkin\<close>

record wire_skin =
  mesh :: wire_mesh
  crease_layer :: "nat option"
  kwargs :: kwargs
  vert_caps :: "vert_cap list"
  profile_connectors :: "profile_connector list"

definition WireSkin_init :: "wire_mesh \<Rightarrow> kwargs \<Rightarrow> wire_skin" where
  "WireSkin_init m kw =
     \<lparr>mesh = m, crease_layer = None, kwargs = kw, vert_caps = [], profile_connectors = []\<rparr>"

text \<open>
  The state of a build: the WireSkin and the bmesh objects that exist. A cap method runs
  on the bmesh the cap refers to.
\<close>

type_synonym world = "wire_skin \<times> bmesh list"

definition create_vert_caps :: "nat \<Rightarrow> world \<Rightarrow> error + world" where
  "create_vert_caps r = (\<lambda>(ws, bms).
     ebind (for_each (\<lambda>co caps. ebind (VertCap_init co r (kwargs ws)) (\<lambda>c. Inr (caps @ [c])))
              (vertices (mesh ws)) (vert_caps ws))
       (\<lambda>caps. Inr (ws\<lparr>vert_caps := caps\<rparr>, bms)))"

definition register_edge :: "wire_mesh \<Rightarrow> mesh_edge \<Rightarrow> nat \<Rightarrow> nat \<Rightarrow> vert_cap list \<Rightarrow> error + vert_cap list" where
  "register_edge m edge this_vert_index other_vert_index caps =
     ebind (py_nth (vertices m) other_vert_index) (\<lambda>other_co.
     ebind (py_nth caps this_vert_index) (\<lambda>c.
     Inr (caps[this_vert_index := add_edge_vert c edge other_co other_vert_index])))"

definition add_edges_to_vert_caps :: "world \<Rightarrow> error + world" where
  "add_edges_to_vert_caps = (\<lambda>(ws, bms).
     ebind (for_each
              (\<lambda>edge caps.
                 ebind (register_edge (mesh ws) edge
                          (fst (edge_vertices edge)) (snd (edge_vertices edge)) caps)
                   (register_edge (mesh ws) edge
                          (snd (edge_vertices edge)) (fst (edge_vertices edge))))
              (mesh_edges (mesh ws)) (vert_caps ws))
       (\<lambda>caps. Inr (ws\<lparr>vert_caps := caps\<rparr>, bms)))"

text \<open>The cap \<open>vert_caps[k]\<close> runs a method that changes it and its bmesh.\<close>

definition with_cap ::
  "(vert_cap \<Rightarrow> bmesh \<Rightarrow> error + vert_cap \<times> bmesh) \<Rightarrow> nat \<Rightarrow> world \<Rightarrow> error + world" where
  "with_cap f k = (\<lambda>(ws, bms).
     ebind (py_nth (vert_caps ws) k) (\<lambda>c.
     ebind (bm_deref bms (bm c)) (\<lambda>b.
     ebind (f c b) (\<lambda>(c', b').
     Inr (ws\<lparr>vert_caps := (vert_caps ws)[k := c']\<rparr>, bms[bm c := b'])))))"

definition for_each_cap ::
  "(world \<Rightarrow> vert_cap \<Rightarrow> bmesh \<Rightarrow> error + vert_cap \<times> bmesh) \<Rightarrow> world \<Rightarrow> error + world" where
  "for_each_cap f w = for_each (\<lambda>k w1. with_cap (f w1) k w1) [0 ..< length (vert_caps (fst w))] w"

definition create_vert_cap_poles :: "world \<Rightarrow> error + world" where
  "create_vert_cap_poles = for_each_cap (\<lambda>w. create_pole_verts)"

definition create_vert_cap_profiles :: "world \<Rightarrow> error + world" where
  "create_vert_cap_profiles =
     for_each_cap (\<lambda>w. create_profiles (map normal (vert_caps (fst w))))"

definition cap_faces :: "vert_cap \<Rightarrow> bmesh \<Rightarrow> error + vert_cap \<times> bmesh" where
  "cap_faces c b = ebind (create_pole_faces c b) (create_inter_profile_faces c)"

definition create_vert_cap_faces :: "world \<Rightarrow> error + world" where
  "create_vert_cap_faces = for_each_cap (\<lambda>w. cap_faces)"

definition connect_profiles :: "nat \<Rightarrow> world \<Rightarrow> error + world" where
  "connect_profiles r = (\<lambda>(ws, bms).
     for_each
       (\<lambda>edge (ws1, bms1).
          ebind (join_profiles (vert_caps ws1) (ProfileConnector_init edge r (kwargs ws1)) bms1)
            (\<lambda>(pc, bms2).
               Inr (ws1\<lparr>profile_connectors := profile_connectors ws1 @ [pc]\<rparr>, bms2)))
       (mesh_edges (mesh ws)) (ws, bms))"

definition with_connector :: "nat \<Rightarrow> world \<Rightarrow> error + world" where
  "with_connector k = (\<lambda>(ws, bms).
     ebind (py_nth (profile_connectors ws) k) (\<lambda>pc.
     ebind (bm_deref bms (pc_bm pc)) (\<lambda>b.
     ebind (pc_crease_edges pc b) (\<lambda>b'. Inr (ws, bms[pc_bm pc := b'])))))"

definition ws_crease_edges :: "world \<Rightarrow> error + world" where
  "ws_crease_edges w =
     (if crease_layer (fst w) \<noteq> None then
        ebind (for_each_cap (\<lambda>w1 c b. ebind (crease_edges c b) (\<lambda>b'. Inr (c, b'))) w)
          (\<lambda>w1. for_each with_connector [0 ..< length (profile_connectors (fst w1))] w1)
      else Inr w)"

text \<open>
  \<open>create_mesh\<close>: the new bmesh gets the next free reference; the mesh returned is what
  the bmesh holds when it is converted, after which the bmesh is freed.
\<close>

definition create_mesh :: "world \<Rightarrow> error + bmesh \<times> world" where
  "create_mesh = (\<lambda>(ws, bms).
     let r = length bms;
         has_crease = (kw_crease (kwargs ws) \<noteq> None);
         b0 = bmesh_new\<lparr>bm_crease_layer := has_crease\<rparr>;
         ws0 = (if has_crease then ws\<lparr>crease_layer := Some r\<rparr> else ws)
     in ebind (create_vert_caps r (ws0, bms @ [b0])) (\<lambda>w1.
        ebind (add_edges_to_vert_caps w1) (\<lambda>w2.
        ebind (create_vert_cap_poles w2) (\<lambda>w3.
        ebind (create_vert_cap_profiles w3) (\<lambda>w4.
        ebind (create_vert_cap_faces w4) (\<lambda>w5.
        ebind (connect_profiles r w5) (\<lambda>w6.
        ebind (ws_crease_edges w6) (\<lambda>(ws7, bms7).
        ebind (bm_deref bms7 r) (\<lambda>me.
        Inr (me, (ws7, bms7[r := me\<lparr>bm_valid := False\<rparr>])))))))))))"

subsection \<open>Notions used to state the properties\<close>

text \<open>The search of \<open>nearest_index\<close> stopped before the index \<open>m\<close>.\<close>

definition nearest_state :: "real list \<Rightarrow> real \<Rightarrow> nat \<Rightarrow> real \<times> nat" where
  "nearest_state lengths l0 m = fold (\<lambda>i (min_len, min_i).
                  if lengths ! i < min_len then (lengths ! i, i) else (min_len, min_i))
            [1 ..< m] (l0, 0)"

text \<open>The quad that round \<open>idx\<close> of the last loop of \<open>join_profiles\<close> makes.\<close>

definition join_quad :: "nat list \<Rightarrow> nat list \<Rightarrow> nat \<Rightarrow> nat \<Rightarrow> int \<Rightarrow> nat \<Rightarrow> nat list" where
  "join_quad loop0 loop1 min_i min_i2 mult idx =
     [loop0 ! idx, loop0 ! ((idx + 1) mod 4),
      loop1 ! mod4 (int min_i2 + mult * int idx), loop1 ! mod4 (int min_i + mult * int idx)]"

text \<open>
  The first four phases of \<open>create_mesh\<close> on a new WireSkin without a crease option:
  caps, edge registration, poles, profiles.
\<close>

definition profile_phase :: "wire_mesh \<Rightarrow> kwargs \<Rightarrow> error + world" where
  "profile_phase m kw =
     ebind (create_vert_caps 0 (WireSkin_init m kw, [bmesh_new])) (\<lambda>w1.
     ebind (add_edges_to_vert_caps w1) (\<lambda>w2.
     ebind (create_vert_cap_poles w2) create_vert_cap_profiles))"

text \<open>The same, followed by the phase that makes the faces of the caps.\<close>

definition face_phase :: "wire_mesh \<Rightarrow> kwargs \<Rightarrow> error + world" where
  "face_phase m kw = ebind (profile_phase m kw) create_vert_cap_faces"

text \<open>The number of edges of the wireframe that end at vertex \<open>i\<close>.\<close>

definition degree :: "wire_mesh \<Rightarrow> nat \<Rightarrow> nat" where
  "degree m i = length (filter (\<lambda>e. fst e = i \<or> snd e = i) (edges m))"

text \<open>A cap method leaves the bmesh reference and the crease value of its cap alone.\<close>

definition same_id :: "vert_cap \<Rightarrow> vert_cap \<Rightarrow> bool" where
  "same_id c c' \<longleftrightarrow> bm c' = bm c \<and> crease c' = crease c"

text \<open>Every cap, every connector, refers to the bmesh \<open>r\<close> and holds the crease value \<open>v\<close>.\<close>

definition caps_ok :: "nat \<Rightarrow> real option \<Rightarrow> wire_skin \<Rightarrow> bool" where
  "caps_ok r v ws \<longleftrightarrow> (\<forall>c \<in> set (vert_caps ws). bm c = r \<and> crease c = v)"

definition pcs_ok :: "nat \<Rightarrow> real option \<Rightarrow> wire_skin \<Rightarrow> bool" where
  "pcs_ok r v ws \<longleftrightarrow> (\<forall>pc \<in> set (profile_connectors ws). pc_bm pc = r \<and> pc_crease pc = v)"

text \<open>The attributes of a WireSkin that only \<open>create_mesh\<close> itself may set.\<close>

definition settings :: "wire_skin \<Rightarrow> wire_mesh \<times> nat option \<times> kwargs" where
  "settings ws = (mesh ws, crease_layer ws, kwargs ws)"

subsection \<open>Concrete inputs\<close>

text \<open>A straight wire of two edges: the edges of the middle vertex are opposite.\<close>

definition mesh_line :: wire_mesh where
  "mesh_line = \<lparr>vertices = [(- 1, 0, 0), (0, 0, 0), (1, 0, 0)], edges = [(0, 1), (1, 2)]\<rparr>"

text \<open>
  A vertex with four edges in a plane, two of them in the same direction: to \<open>(0, 1, 0)\<close>
  and to \<open>(0, 2, 0)\<close>.
\<close>

definition mesh_hub :: wire_mesh where
  "mesh_hub = \<lparr>vertices = [(0, 0, 0), (1, 0, 0), (0, 1, 0), (0, 2, 0), (- 1, 0, 0)],
               edges = [(0, 1), (0, 2), (0, 3), (0, 4)]\<rparr>"

text \<open>Options that give every size: width 2, dist 1/2, both radii 1.\<close>

definition kw_unit :: kwargs where
  "kw_unit = no_kwargs\<lparr>kw_width := Some 2, kw_dist := Some (1 / 2),
                          kw_inside_radius := Some 1, kw_outside_radius := Some 1\<rparr>"

text \<open>A cap at the origin with three edges that leave in the same direction.\<close>

definition cap_three_in_line :: vert_cap where
  "cap_three_in_line =
     \<lparr>input_vert = (0, 0, 0), bm = 0,
      input_edge_verts =
        [\<lparr>ev_v = (1, 0, 0), ev_i = 1, ev_e = \<lparr>edge_vertices = (0, 1), edge_index = 0\<rparr>, ev_l = 1\<rparr>,
         \<lparr>ev_v = (2, 0, 0), ev_i = 2, ev_e = \<lparr>edge_vertices = (0, 2), edge_index = 1\<rparr>, ev_l = 2\<rparr>,
         \<lparr>ev_v = (3, 0, 0), ev_i = 3, ev_e = \<lparr>edge_vertices = (0, 3), edge_index = 2\<rparr>, ev_l = 3\<rparr>],
      width_2 = 1, height_2 = 1, dist_attr = PyFloat (1 / 2),
      inside_radius = 1, outside_radius = 1, crease = None, displace = None,
      proportional_scale = False, poles = [], normal = None, profiles = [],
      edge_profile_map = Map.empty, creased_edges = []\<rparr>"

text \<open>
  Two caps at the ends of edge 0, each with its profile for that edge, and a bmesh that
  holds the eight profile vertices and no face yet.
\<close>

definition tube_cap :: "Vector \<Rightarrow> nat list \<Rightarrow> vert_cap" where
  "tube_cap co profile =
     \<lparr>input_vert = co, bm = 0, input_edge_verts = [],
      width_2 = 1, height_2 = 1, dist_attr = PyFloat (1 / 4),
      inside_radius = 1, outside_radius = 1, crease = None, displace = None,
      proportional_scale = False, poles = [], normal = None, profiles = [profile],
      edge_profile_map = [0 \<mapsto> profile], creased_edges = []\<rparr>"

definition tube_caps :: "vert_cap list" where
  "tube_caps = [tube_cap (0, 0, 0) [0, 1, 2, 3], tube_cap (1, 0, 0) [4, 5, 6, 7]]"

definition tube_bm :: bmesh where
  "tube_bm = bmesh_new\<lparr>bm_verts :=
     [(1 / 4, 1, 1), (1 / 4, 1, - 1), (1 / 4, - 1, - 1), (1 / 4, - 1, 1),
      (3 / 4, - 1, 1), (3 / 4, - 1, - 1), (3 / 4, 1, - 1), (3 / 4, 1, 1)]\<rparr>"

definition tube_pc :: profile_connector where
  "tube_pc = ProfileConnector_init \<lparr>edge_vertices = (0, 1), edge_index = 0\<rparr> 0 no_kwargs"

text \<open>
  A vertex with three edges of length 4 along the axes, and a vertex without edges.
\<close>

definition mesh_tee :: wire_mesh where
  "mesh_tee = \<lparr>vertices = [(0, 0, 0), (4, 0, 0), (0, 4, 0), (- 4, 0, 0), (9, 9, 9)],
               edges = [(0, 1), (0, 2), (0, 3)]\<rparr>"

text \<open>Options with whole sizes: width 2, dist 1, both radii 1.\<close>

definition kw_one :: kwargs where
  "kw_one = no_kwargs\<lparr>kw_width := Some 2, kw_dist := Some 1,
                         kw_inside_radius := Some 1, kw_outside_radius := Some 1\<rparr>"

section \<open>Properties\<close>

subsection \<open>Helper facts about exceptions and loops\<close>

lemma ebind_Inl [simp]: "ebind (Inl e) f = Inl e"
  by (simp add: ebind_def)

lemma ebind_Inr [simp]: "ebind (Inr x) f = f x"
  by (simp add: ebind_def)

lemma ebind_eq_Inr: "ebind m f = Inr y \<longleftrightarrow> (\<exists>x. m = Inr x \<and> f x = Inr y)"
  by (cases m) simp_all

lemma ebind_weak_cong: "m = m' \<Longrightarrow> ebind m f = ebind m' f"
  by simp

lemma for_each_weak_cong: "xs = ys \<Longrightarrow> s = t \<Longrightarrow> for_each f xs s = for_each f ys t"
  by simp

lemma for_each_invariant:
  assumes "for_each f xs s = Inr s'" and "P s"
    and "\<And>x t t'. P t \<Longrightarrow> f x t = Inr t' \<Longrightarrow> P t'"
  shows "P s'"
  using assms(1,2)
proof (induction xs arbitrary: s)
  case Nil then show ?case by simp
next
  case (Cons x xs)
  from Cons.prems(1) obtain t where t: "f x s = Inr t" and r: "for_each f xs t = Inr s'"
    by (auto simp: ebind_eq_Inr)
  from assms(3)[OF Cons.prems(2) t] Cons.IH[OF r] show ?case by blast
qed

lemma for_each_establish:
  assumes "for_each f xs s = Inr s'" and "I s" and "x \<in> set xs"
    and inv: "\<And>y t t'. I t \<Longrightarrow> f y t = Inr t' \<Longrightarrow> I t'"
    and est: "\<And>t t'. I t \<Longrightarrow> f x t = Inr t' \<Longrightarrow> P t'"
    and keep: "\<And>y t t'. I t \<Longrightarrow> P t \<Longrightarrow> f y t = Inr t' \<Longrightarrow> P t'"
  shows "P s'"
  using assms(1,2,3)
proof (induction xs arbitrary: s)
  case Nil then show ?case by simp
next
  case (Cons y ys)
  from Cons.prems(1) obtain t where t: "f y s = Inr t" and r: "for_each f ys t = Inr s'"
    by (auto simp: ebind_eq_Inr)
  have It: "I t" using inv[OF Cons.prems(2) t] .
  show ?case
  proof (cases "x \<in> set ys")
    case True
    from Cons.IH[OF r It True] show ?thesis .
  next
    case False
    with Cons.prems(3) have "y = x" by simp
    with est[OF Cons.prems(2)] t have Pt: "P t" by simp
    have "I s' \<and> P s'"
      using r
    proof (rule for_each_invariant[where P = "\<lambda>u. I u \<and> P u"])
      show "I t \<and> P t" using It Pt by simp
    next
      fix z u u' assume "I u \<and> P u" "f z u = Inr u'"
      then show "I u' \<and> P u'" using inv keep by blast
    qed
    then show ?thesis by simp
  qed
qed

lemma magnitude_x [simp]: "magnitude (x, 0, 0) = \<bar>x\<bar>"
  by (simp add: magnitude_def)

lemma magnitude_y [simp]: "magnitude (0, y, 0) = \<bar>y\<bar>"
  by (simp add: magnitude_def)

lemma magnitude_z [simp]: "magnitude (0, 0, z) = \<bar>z\<bar>"
  by (simp add: magnitude_def)

text \<open>Rules that evaluate a build on a concrete wireframe.\<close>

lemma Suc_Suc_0: "Suc (Suc 0) = 2"
  by simp

lemmas build_eval =
  Suc_Suc_0 py_nth_def kw_unit_def no_kwargs_def WireSkin_init_def create_vert_caps_def
  VertCap_init_def bmesh_new_def mesh_edges_def add_edges_to_vert_caps_def register_edge_def
  add_edge_vert_def upt_conv_Cons
  create_vert_cap_poles_def for_each_cap_def with_cap_def bm_deref_def create_pole_verts_def
  edge_dirs_def diff_average_def normalized_def least_squares_normal_def covariance_def
  pole_scale_def verts_new_def Let_def
  create_vert_cap_profiles_def create_profiles_def reorder_edge_verts_def edge_theta_def atan2_def
  create_profile_def blend_normals_def
  create_vert_cap_faces_def cap_faces_def create_pole_faces_def new_face_def faces_new_def
  create_inter_profile_faces_def inter_profile_step_def get_edge_def edges_get_def edge_key_def
  connect_profiles_def join_profiles_def join_step_def ProfileConnector_init_def get_edge_profile_def
  profile_co_def vert_co_def nearest_index_def mod4_def ws_crease_edges_def with_connector_def
  crease_edges_def pc_crease_edges_def set_crease_def create_mesh_def profile_phase_def
  face_phase_def
  set_eq_subset

text \<open>Lengths of vectors off the axes, compared through their squares.\<close>

lemma less_sqrt_iff: "0 \<le> a \<Longrightarrow> a < sqrt b \<longleftrightarrow> a\<^sup>2 < b"
  by (metis abs_of_nonneg real_sqrt_abs real_sqrt_less_iff)

lemma sqrt_less_iff: "0 \<le> a \<Longrightarrow> sqrt b < a \<longleftrightarrow> b < a\<^sup>2"
  by (metis abs_of_nonneg real_sqrt_abs real_sqrt_less_iff)

lemma magnitude_xy: "x \<noteq> 0 \<Longrightarrow> y \<noteq> 0 \<Longrightarrow> magnitude (x, y, z) = sqrt (x * x + y * y + z * z)"
  by (simp add: magnitude_def)

lemma magnitude_xz: "x \<noteq> 0 \<Longrightarrow> z \<noteq> 0 \<Longrightarrow> magnitude (x, y, z) = sqrt (x * x + y * y + z * z)"
  by (simp add: magnitude_def)

lemma magnitude_yz: "y \<noteq> 0 \<Longrightarrow> z \<noteq> 0 \<Longrightarrow> magnitude (x, y, z) = sqrt (x * x + y * y + z * z)"
  by (simp add: magnitude_def)

lemma map_all_const: "\<forall>x \<in> set xs. f x = a \<Longrightarrow> map f xs = replicate (length xs) a"
  by (induction xs) simp_all

lemma half_ex: "\<exists>y::real. y * 2 = 1"
  by (rule exI[of _ "1 / 2"]) simp

lemmas build_eval2 = build_eval kw_one_def magnitude_xy magnitude_xz magnitude_yz
  less_sqrt_iff sqrt_less_iff

subsection \<open>Defaults of the options\<close>

text \<open>
  C5 (code): with the radii given and nothing else, the stored half-width is 0.1 and the
  half-height equals it, but the attribute \<open>dist\<close> is the tuple \<open>(0, 25)\<close> that the
  source's \<open>0,25\<close> denotes, not the float 0.25.
\<close>

theorem default_dist_is_tuple:
  "map_sum id (\<lambda>c. (width_2 c, height_2 c, dist_attr c))
     (VertCap_init co b (no_kwargs\<lparr>kw_inside_radius := Some r1, kw_outside_radius := Some r2\<rparr>))
   = Inr (1 / 10, 1 / 10, PyTuple [0, 25])"
  by (simp add: VertCap_init_def no_kwargs_def Let_def)

text \<open>
  C3 (code): an option \<open>radius\<close> does not stand in for a missing \<open>inside_radius\<close> or
  \<open>outside_radius\<close>; the constructor raises AttributeError whatever \<open>radius\<close> is.
\<close>

theorem radius_option_is_ignored:
  "VertCap_init co b (no_kwargs\<lparr>kw_radius := Some r\<rparr>) = Inl AttributeError"
  by (simp add: VertCap_init_def no_kwargs_def Let_def)

subsection \<open>The direction of the poles\<close>

text \<open>
  C6: when a cap has edges and the average \<open>vave\<close> of its edge directions is longer than
  1e-7, \<open>create_pole_verts\<close> sets the normal to \<open>-normalize(vave)\<close> for fewer than
  three edges and to \<open>-normalize(least_squares_normal(vave, diffs))\<close> otherwise; and the
  plane fit returns \<open>vave\<close> itself when the largest minor determinant is below 1e-5.
\<close>

theorem pole_direction:
  assumes "create_pole_verts c b = Inr (c', b')"
    and "input_edge_verts c \<noteq> []"
    and "magnitude (diff_average (edge_dirs c)) > 0.0000001"
  shows "normal c' =
           Some (vneg (normalized
             (if length (input_edge_verts c) < 3 then diff_average (edge_dirs c)
              else least_squares_normal (diff_average (edge_dirs c)) (edge_dirs c))))
         \<and> (det_max (minor_dets (covariance vave ds)) < 0.00001
              \<longrightarrow> least_squares_normal vave ds = vave)"
  using assms
  by (auto simp: create_pole_verts_def Let_def ebind_eq_Inr verts_new_def least_squares_normal_def
           split: if_splits prod.splits)

theorem pole_direction_witness:
  "normal (fst (projr (create_pole_verts cap_three_in_line bmesh_new))) = Some (- 1, 0, 0)
   \<and> det_max (minor_dets (covariance (1, 0, 0) [(1, 0, 0), (1, 0, 0), (1, 0, 0)])) < 0.00001
   \<and> least_squares_normal (1, 0, 0) [(1, 0, 0), (1, 0, 0), (1, 0, 0)] = (1, 0, 0)"
proof -
  have h1: "create_pole_verts cap_three_in_line bmesh_new
              = Inr (projr (create_pole_verts cap_three_in_line bmesh_new))"
    by (simp add: cap_three_in_line_def create_pole_verts_def edge_dirs_def diff_average_def
          normalized_def least_squares_normal_def covariance_def pole_scale_def verts_new_def
          bmesh_new_def Let_def cong: ebind_weak_cong)
  then obtain c' b' where h: "create_pole_verts cap_three_in_line bmesh_new = Inr (c', b')"
    by (metis surj_pair)
  have h2: "input_edge_verts cap_three_in_line \<noteq> []"
    by (simp add: cap_three_in_line_def)
  have h3: "magnitude (diff_average (edge_dirs cap_three_in_line)) > 0.0000001"
    by (simp add: cap_three_in_line_def edge_dirs_def diff_average_def normalized_def)
  have h4: "det_max (minor_dets (covariance (1, 0, 0) [(1, 0, 0), (1, 0, 0), (1, 0, 0)])) < 0.00001"
    by (simp add: covariance_def)
  from pole_direction[OF h h2 h3, of "(1, 0, 0)" "[(1, 0, 0), (1, 0, 0), (1, 0, 0)]"] h h4
  show ?thesis
    by (simp add: cap_three_in_line_def edge_dirs_def diff_average_def normalized_def
          least_squares_normal_def covariance_def Let_def)
qed

subsection \<open>The wall between two profiles\<close>

lemma nearest_state_inv:
  "0 < m \<Longrightarrow> m \<le> length lengths \<Longrightarrow>
   snd (nearest_state lengths (lengths ! 0) m) < m \<and>
   fst (nearest_state lengths (lengths ! 0) m) = lengths ! snd (nearest_state lengths (lengths ! 0) m) \<and>
   (\<forall>k<m. lengths ! snd (nearest_state lengths (lengths ! 0) m) \<le> lengths ! k)"
proof (induction m)
  case 0 then show ?case by simp
next
  case (Suc m)
  show ?case
  proof (cases "m = 0")
    case True
    then show ?thesis by (simp add: nearest_state_def)
  next
    case False
    then have IH: "snd (nearest_state lengths (lengths ! 0) m) < m \<and>
   fst (nearest_state lengths (lengths ! 0) m) = lengths ! snd (nearest_state lengths (lengths ! 0) m) \<and>
   (\<forall>k<m. lengths ! snd (nearest_state lengths (lengths ! 0) m) \<le> lengths ! k)"
      using Suc by simp
    have step: "nearest_state lengths (lengths ! 0) (Suc m) =
       (case nearest_state lengths (lengths ! 0) m of (min_len, min_i) \<Rightarrow>
          if lengths ! m < min_len then (lengths ! m, m) else (min_len, min_i))"
      using False by (simp add: nearest_state_def)
    show ?thesis
      using IH unfolding step
      by (auto simp: less_Suc_eq split: prod.splits)
  qed
qed

lemma nearest_index_min:
  assumes "lengths \<noteq> []"
  shows "nearest_index lengths (lengths ! 0) < length lengths \<and>
         (\<forall>k<length lengths. lengths ! nearest_index lengths (lengths ! 0) \<le> lengths ! k)"
  using nearest_state_inv[of "length lengths" lengths] assms
  by (simp add: nearest_index_def nearest_state_def)


lemma mod4_less [simp]: "mod4 k < 4"
  by (simp add: mod4_def nat_less_iff)

lemma new_face_quad:
  assumes "new_face [(xs, i), (xs, j), (ys, k), (ys, l)] b = Inr b'"
  shows "bm_faces b' = bm_faces b @ [[xs ! i, xs ! j, ys ! k, ys ! l]]
         \<and> bm_verts b' = bm_verts b \<and> bm_valid b' = bm_valid b"
  using assms
  by (auto simp: new_face_def ebind_eq_Inr py_nth_def faces_new_def split: if_splits)

lemma join_step_faces:
  assumes "join_step vc0 vc1 loop0 loop1 min_i min_i2 mult idx (pc, bms) = Inr (pc', bms')"
  shows "pc_bm pc' = pc_bm pc \<and> pc_bm pc < length bms \<and> length bms' = length bms
         \<and> bm_faces (bms' ! pc_bm pc) =
             bm_faces (bms ! pc_bm pc) @ [join_quad loop0 loop1 min_i min_i2 mult idx]"
  using assms
  by (auto simp: join_step_def Let_def ebind_eq_Inr bm_deref_def join_quad_def
           dest!: new_face_quad split: if_splits)

lemma join_loop_faces:
  assumes "for_each (join_step vc0 vc1 loop0 loop1 min_i min_i2 mult) ks (pc, bms) = Inr (pc', bms')"
    and "ks \<noteq> []"
  shows "pc_bm pc' = pc_bm pc \<and> pc_bm pc < length bms \<and> length bms' = length bms
         \<and> bm_faces (bms' ! pc_bm pc) =
             bm_faces (bms ! pc_bm pc) @ map (join_quad loop0 loop1 min_i min_i2 mult) ks"
  using assms
proof (induction ks arbitrary: pc bms)
  case Nil then show ?case by simp
next
  case (Cons k ks)
  from Cons.prems obtain pc1 bms1 where
    st: "join_step vc0 vc1 loop0 loop1 min_i min_i2 mult k (pc, bms) = Inr (pc1, bms1)"
    and rest: "for_each (join_step vc0 vc1 loop0 loop1 min_i min_i2 mult) ks (pc1, bms1) = Inr (pc', bms')"
    by (auto simp: ebind_eq_Inr)
  note s = join_step_faces[OF st]
  show ?case
  proof (cases "ks = []")
    case True
    with rest s show ?thesis by simp
  next
    case False
    from Cons.IH[OF rest False] s show ?thesis by simp
  qed
qed


lemma length4E: "length xs = 4 \<Longrightarrow> \<exists>a b c d. xs = [a, b, c, d]"
  by (auto simp: numeral_eq_Suc length_Suc_conv)

lemma upt4: "[0 ..< 4] = [0, 1, 2, 3]"
  by (simp add: upt_rec)

lemma ring_count:
  assumes "distinct [a0, a1, a2, a3, c0, c1, c2, c3]"
    and "v \<in> set [a0, a1, a2, a3, c0, c1, c2, c3]"
  shows "length (filter (\<lambda>f. v \<in> set f)
           [[a0, a1, c1, c0], [a1, a2, c2, c1], [a2, a3, c3, c2], [a3, a0, c0, c3]]) = 2"
proof -
  from assms(2) consider "v = a0" | "v = a1" | "v = a2" | "v = a3"
    | "v = c0" | "v = c1" | "v = c2" | "v = c3" by auto
  then show ?thesis
    using assms(1) by cases auto
qed


lemma join_quads_closed:
  assumes "length loop0 = 4" "length loop1 = 4" "distinct (loop0 @ loop1)" "min_i < 4"
    and "(min_i2 = (min_i + 1) mod 4 \<and> mult = 1) \<or> (min_i2 = mod4 (int min_i - 1) \<and> mult = - 1)"
    and "v \<in> set (loop0 @ loop1)"
  shows "length (filter (\<lambda>f. v \<in> set f) (map (join_quad loop0 loop1 min_i min_i2 mult) [0 ..< 4])) = 2"
proof -
  obtain a0 a1 a2 a3 where l0: "loop0 = [a0, a1, a2, a3]" using assms(1) length4E by blast
  obtain b0 b1 b2 b3 where l1: "loop1 = [b0, b1, b2, b3]" using assms(2) length4E by blast
  have d: "distinct [a0, a1, a2, a3, b0, b1, b2, b3]" using assms(3) unfolding l0 l1 by simp
  have v: "v \<in> set [a0, a1, a2, a3, b0, b1, b2, b3]" using assms(6) unfolding l0 l1 by simp
  { assume k: "min_i = 0" and m: "min_i2 = (min_i + 1) mod 4 \<and> mult = 1"
    have shape: "map (join_quad loop0 loop1 min_i min_i2 mult) [0 ..< 4] =
           [[a0, a1, b1, b0], [a1, a2, b2, b1], [a2, a3, b3, b2], [a3, a0, b0, b3]]"
      unfolding l0 l1 upt4 using k m by (simp add: join_quad_def mod4_def)
    have ?thesis unfolding shape by (rule ring_count) (use d v in auto) }
  note c0f = this
  { assume k: "min_i = 0" and m: "min_i2 = mod4 (int min_i - 1) \<and> mult = - 1"
    have shape: "map (join_quad loop0 loop1 min_i min_i2 mult) [0 ..< 4] =
           [[a0, a1, b3, b0], [a1, a2, b2, b3], [a2, a3, b1, b2], [a3, a0, b0, b1]]"
      unfolding l0 l1 upt4 using k m by (simp add: join_quad_def mod4_def)
    have ?thesis unfolding shape by (rule ring_count) (use d v in auto) }
  note c0b = this
  { assume k: "min_i = 1" and m: "min_i2 = (min_i + 1) mod 4 \<and> mult = 1"
    have shape: "map (join_quad loop0 loop1 min_i min_i2 mult) [0 ..< 4] =
           [[a0, a1, b2, b1], [a1, a2, b3, b2], [a2, a3, b0, b3], [a3, a0, b1, b0]]"
      unfolding l0 l1 upt4 using k m by (simp add: join_quad_def mod4_def)
    have ?thesis unfolding shape by (rule ring_count) (use d v in auto) }
  note c1f = this
  { assume k: "min_i = 1" and m: "min_i2 = mod4 (int min_i - 1) \<and> mult = - 1"
    have shape: "map (join_quad loop0 loop1 min_i min_i2 mult) [0 ..< 4] =
           [[a0, a1, b0, b1], [a1, a2, b3, b0], [a2, a3, b2, b3], [a3, a0, b1, b2]]"
      unfolding l0 l1 upt4 using k m by (simp add: join_quad_def mod4_def)
    have ?thesis unfolding shape by (rule ring_count) (use d v in auto) }
  note c1b = this
  { assume k: "min_i = 2" and m: "min_i2 = (min_i + 1) mod 4 \<and> mult = 1"
    have shape: "map (join_quad loop0 loop1 min_i min_i2 mult) [0 ..< 4] =
           [[a0, a1, b3, b2], [a1, a2, b0, b3], [a2, a3, b1, b0], [a3, a0, b2, b1]]"
      unfolding l0 l1 upt4 using k m by (simp add: join_quad_def mod4_def)
    have ?thesis unfolding shape by (rule ring_count) (use d v in auto) }
  note c2f = this
  { assume k: "min_i = 2" and m: "min_i2 = mod4 (int min_i - 1) \<and> mult = - 1"
    have shape: "map (join_quad loop0 loop1 min_i min_i2 mult) [0 ..< 4] =
           [[a0, a1, b1, b2], [a1, a2, b0, b1], [a2, a3, b3, b0], [a3, a0, b2, b3]]"
      unfolding l0 l1 upt4 using k m by (simp add: join_quad_def mod4_def)
    have ?thesis unfolding shape by (rule ring_count) (use d v in auto) }
  note c2b = this
  { assume k: "min_i = 3" and m: "min_i2 = (min_i + 1) mod 4 \<and> mult = 1"
    have shape: "map (join_quad loop0 loop1 min_i min_i2 mult) [0 ..< 4] =
           [[a0, a1, b0, b3], [a1, a2, b1, b0], [a2, a3, b2, b1], [a3, a0, b3, b2]]"
      unfolding l0 l1 upt4 using k m by (simp add: join_quad_def mod4_def)
    have ?thesis unfolding shape by (rule ring_count) (use d v in auto) }
  note c3f = this
  { assume k: "min_i = 3" and m: "min_i2 = mod4 (int min_i - 1) \<and> mult = - 1"
    have shape: "map (join_quad loop0 loop1 min_i min_i2 mult) [0 ..< 4] =
           [[a0, a1, b2, b3], [a1, a2, b1, b2], [a2, a3, b0, b1], [a3, a0, b3, b0]]"
      unfolding l0 l1 upt4 using k m by (simp add: join_quad_def mod4_def)
    have ?thesis unfolding shape by (rule ring_count) (use d v in auto) }
  note c3b = this
  from assms(4) have "min_i = 0 \<or> min_i = 1 \<or> min_i = 2 \<or> min_i = 3" by linarith
  with assms(5) show ?thesis
    using c0f c0b c1f c1b c2f c2b c3f c3b by blast
qed


lemma collect_co:
  assumes "for_each (\<lambda>k ps. ebind (profile_co bms vc loop k) (\<lambda>p. Inr (ps @ [p]))) ks acc = Inr r"
  shows "\<exists>ps. r = acc @ ps \<and> length ps = length ks \<and>
           (\<forall>j<length ks. profile_co bms vc loop (ks ! j) = Inr (ps ! j))"
  using assms
proof (induction ks arbitrary: acc)
  case Nil then show ?case by simp
next
  case (Cons k ks)
  from Cons.prems obtain p where p: "profile_co bms vc loop k = Inr p"
    and rest: "for_each (\<lambda>k ps. ebind (profile_co bms vc loop k) (\<lambda>p. Inr (ps @ [p]))) ks (acc @ [p]) = Inr r"
    by (auto simp: ebind_eq_Inr)
  from Cons.IH[OF rest] obtain ps where ps: "r = (acc @ [p]) @ ps" "length ps = length ks"
    "\<forall>j<length ks. profile_co bms vc loop (ks ! j) = Inr (ps ! j)" by blast
  show ?case
  proof (intro exI[of _ "p # ps"] conjI allI impI)
    fix j assume "j < length (k # ks)"
    then show "profile_co bms vc loop ((k # ks) ! j) = Inr ((p # ps) ! j)"
      using p ps(3) by (cases j) auto
  qed (use ps in auto)
qed

text \<open>
  What \<open>join_profiles\<close> adds when it returns, for two profiles of eight different
  vertices: four quads, found from the vertex of \<open>loop1\<close> nearest to \<open>loop0[0]\<close>, and
  every profile vertex is in exactly two of them.
\<close>

lemma join_profiles_quads:
  assumes run: "join_profiles caps pc bms = Inr (pc', bms')"
    and vc0: "py_nth caps (fst (edge_vertices (pc_edge pc))) = Inr vc0"
    and vc1: "py_nth caps (snd (edge_vertices (pc_edge pc))) = Inr vc1"
    and loop0: "get_edge_profile vc0 (pc_edge pc) = Inr loop0"
    and loop1: "get_edge_profile vc1 (pc_edge pc) = Inr loop1"
    and len: "length loop0 = 4" "length loop1 = 4"
    and dist: "distinct (loop0 @ loop1)"
  shows "\<exists>v0 v1 vloop1 min_i min_i2 mult.
           profile_co bms vc0 loop0 0 = Inr v0 \<and> profile_co bms vc0 loop0 1 = Inr v1 \<and>
           length vloop1 = 4 \<and> (\<forall>k<4. profile_co bms vc1 loop1 k = Inr (vloop1 ! k)) \<and>
           min_i < 4 \<and>
           (\<forall>k<4. magnitude (vsub v0 (vloop1 ! min_i)) \<le> magnitude (vsub v0 (vloop1 ! k))) \<and>
           (min_i2, mult) =
             (if magnitude (vsub (vloop1 ! ((min_i + 1) mod 4)) v1)
                   < magnitude (vsub (vloop1 ! mod4 (int min_i - 1)) v1)
              then ((min_i + 1) mod 4, 1) else (mod4 (int min_i - 1), - 1)) \<and>
           bm_faces (bms' ! pc_bm pc) =
             bm_faces (bms ! pc_bm pc) @ map (join_quad loop0 loop1 min_i min_i2 mult) [0 ..< 4] \<and>
           (\<forall>v \<in> set (loop0 @ loop1).
              length (filter (\<lambda>f. v \<in> set f)
                        (map (join_quad loop0 loop1 min_i min_i2 mult) [0 ..< 4])) = 2)"
proof -
  from run obtain v0 v1 vloop1 l0 p1 p2 where
    v0: "profile_co bms vc0 loop0 0 = Inr v0" and v1: "profile_co bms vc0 loop0 1 = Inr v1"
    and vl: "for_each (\<lambda>k ps. ebind (profile_co bms vc1 loop1 k) (\<lambda>p. Inr (ps @ [p])))
              [0 ..< length loop1] [] = Inr vloop1"
    and l0: "py_nth (map (\<lambda>p. magnitude (vsub v0 p)) vloop1) 0 = Inr l0"
    and loop: "for_each
          (join_step vc0 vc1 loop0 loop1
             (nearest_index (map (\<lambda>p. magnitude (vsub v0 p)) vloop1) l0)
             (if magnitude (vsub p1 v1) < magnitude (vsub p2 v1)
              then (nearest_index (map (\<lambda>p. magnitude (vsub v0 p)) vloop1) l0 + 1) mod 4
              else mod4 (int (nearest_index (map (\<lambda>p. magnitude (vsub v0 p)) vloop1) l0) - 1))
             (if magnitude (vsub p1 v1) < magnitude (vsub p2 v1) then 1 else - 1))
          [0 ..< 4] (pc, bms) = Inr (pc', bms')"
    and p1: "py_nth vloop1 ((nearest_index (map (\<lambda>p. magnitude (vsub v0 p)) vloop1) l0 + 1) mod 4) = Inr p1"
    and p2: "py_nth vloop1 (mod4 (int (nearest_index (map (\<lambda>p. magnitude (vsub v0 p)) vloop1) l0) - 1)) = Inr p2"
    unfolding join_profiles_def vc0 vc1 loop0 loop1 ebind_Inr Let_def
    by (auto simp: ebind_eq_Inr)
  define lengths where "lengths = map (\<lambda>p. magnitude (vsub v0 p)) vloop1"
  define min_i where "min_i = nearest_index lengths l0"
  define fwd where "fwd \<longleftrightarrow> magnitude (vsub p1 v1) < magnitude (vsub p2 v1)"
  define min_i2 where "min_i2 = (if fwd then (min_i + 1) mod 4 else mod4 (int min_i - 1))"
  define mult :: int where "mult = (if fwd then 1 else - 1)"
  from collect_co[OF vl] have vlen: "length vloop1 = 4"
    and vco: "\<forall>k<4. profile_co bms vc1 loop1 k = Inr (vloop1 ! k)"
    using len by auto
  have l0eq: "l0 = lengths ! 0" using l0 by (auto simp: py_nth_def lengths_def split: if_splits)
  have ne: "lengths \<noteq> []" using vlen by (auto simp: lengths_def)
  from nearest_index_min[OF ne] have mi: "min_i < 4"
    and mmin: "\<forall>k<4. lengths ! min_i \<le> lengths ! k"
    using vlen by (auto simp: min_i_def l0eq lengths_def)
  have p1eq: "p1 = vloop1 ! ((min_i + 1) mod 4)" and p2eq: "p2 = vloop1 ! mod4 (int min_i - 1)"
    using p1 p2 by (auto simp: py_nth_def min_i_def lengths_def split: if_splits)
  have faces: "bm_faces (bms' ! pc_bm pc) =
             bm_faces (bms ! pc_bm pc) @ map (join_quad loop0 loop1 min_i min_i2 mult) [0 ..< 4]"
    using join_loop_faces[OF loop] by (simp add: min_i_def min_i2_def mult_def fwd_def lengths_def)
  have dir: "(min_i2 = (min_i + 1) mod 4 \<and> mult = 1) \<or> (min_i2 = mod4 (int min_i - 1) \<and> mult = - 1)"
    by (simp add: min_i2_def mult_def)
  have closed: "\<forall>v \<in> set (loop0 @ loop1).
              length (filter (\<lambda>f. v \<in> set f)
                        (map (join_quad loop0 loop1 min_i min_i2 mult) [0 ..< 4])) = 2"
    using join_quads_closed[OF len dist mi dir] by blast
  have near: "\<forall>k<4. magnitude (vsub v0 (vloop1 ! min_i)) \<le> magnitude (vsub v0 (vloop1 ! k))"
    using mmin mi vlen by (simp add: lengths_def)
  have pick: "(min_i2, mult) =
             (if magnitude (vsub (vloop1 ! ((min_i + 1) mod 4)) v1)
                   < magnitude (vsub (vloop1 ! mod4 (int min_i - 1)) v1)
              then ((min_i + 1) mod 4, 1) else (mod4 (int min_i - 1), - 1))"
    by (simp add: min_i2_def mult_def fwd_def p1eq p2eq)
  from v0 v1 vlen vco mi near pick faces closed show ?thesis by blast
qed

lemma join_profiles_quads_example:
  "\<exists>min_i min_i2 mult.
     bm_faces (snd (projr (join_profiles tube_caps tube_pc [tube_bm])) ! 0) =
       map (join_quad [0, 1, 2, 3] [4, 5, 6, 7] min_i min_i2 mult) [0 ..< 4]
     \<and> (\<forall>v \<in> set ([0, 1, 2, 3] @ [4, 5, 6, 7]).
           length (filter (\<lambda>f. v \<in> set f)
                     (map (join_quad [0, 1, 2, 3] [4, 5, 6, 7] min_i min_i2 mult) [0 ..< 4])) = 2)"
proof -
  have "\<exists>x. join_profiles tube_caps tube_pc [tube_bm] = Inr x"
    by (simp add: join_profiles_def join_step_def tube_caps_def tube_cap_def tube_pc_def
          tube_bm_def bmesh_new_def ProfileConnector_init_def no_kwargs_def py_nth_def
          get_edge_profile_def profile_co_def bm_deref_def vert_co_def nearest_index_def
          mod4_def new_face_def faces_new_def magnitude_def upt_rec Let_def set_eq_subset
          cong: ebind_weak_cong for_each_weak_cong)
  then obtain pc' bms' where run: "join_profiles tube_caps tube_pc [tube_bm] = Inr (pc', bms')"
    by (metis surj_pair)
  have vc0: "py_nth tube_caps (fst (edge_vertices (pc_edge tube_pc))) = Inr (tube_cap (0, 0, 0) [0, 1, 2, 3])"
    and vc1: "py_nth tube_caps (snd (edge_vertices (pc_edge tube_pc))) = Inr (tube_cap (1, 0, 0) [4, 5, 6, 7])"
    by (simp_all add: tube_caps_def tube_pc_def ProfileConnector_init_def py_nth_def)
  have l0: "get_edge_profile (tube_cap (0, 0, 0) [0, 1, 2, 3]) (pc_edge tube_pc) = Inr [0, 1, 2, 3]"
    and l1: "get_edge_profile (tube_cap (1, 0, 0) [4, 5, 6, 7]) (pc_edge tube_pc) = Inr [4, 5, 6, 7]"
    by (simp_all add: tube_cap_def tube_pc_def ProfileConnector_init_def get_edge_profile_def)
  have len: "length [0, 1, 2, 3 :: nat] = 4" "length [4, 5, 6, 7 :: nat] = 4" by simp_all
  have dist: "distinct ([0, 1, 2, 3] @ [4, 5, 6, 7 :: nat])" by simp
  from join_profiles_quads[OF run vc0 vc1 l0 l1 len dist] run
  show ?thesis
    by (simp add: tube_pc_def ProfileConnector_init_def tube_bm_def bmesh_new_def) blast
qed

subsection \<open>Crease values\<close>

lemma stamp_all:
  assumes "for_each (\<lambda>edge b1. set_crease b1 edge val) es b = Inr b'"
  shows "(\<forall>k. bm_crease b k = val \<longrightarrow> bm_crease b' k = val) \<and>
         (\<forall>e \<in> set es. \<exists>k. e = Some k \<and> bm_crease b' k = val)"
  using assms
proof (induction es arbitrary: b)
  case Nil then show ?case by simp
next
  case (Cons e es)
  from Cons.prems obtain b1 where e: "set_crease b e val = Inr b1"
    and rest: "for_each (\<lambda>edge b1. set_crease b1 edge val) es b1 = Inr b'"
    by (auto simp: ebind_eq_Inr)
  from e obtain k x where k: "e = Some k" "val = Some x" "bm_crease b1 = (bm_crease b)(k \<mapsto> x)"
    by (auto simp: set_crease_def split: option.splits if_splits)
  from Cons.IH[OF rest] have keep: "\<forall>j. bm_crease b1 j = val \<longrightarrow> bm_crease b' j = val"
    and stamped: "\<forall>e \<in> set es. \<exists>j. e = Some j \<and> bm_crease b' j = val"
    by blast+
  have "bm_crease b1 k = val" using k by simp
  with keep have here: "bm_crease b' k = val" by blast
  have "\<forall>j. bm_crease b j = val \<longrightarrow> bm_crease b1 j = val" using k by simp
  with keep have "\<forall>j. bm_crease b j = val \<longrightarrow> bm_crease b' j = val" by blast
  with here stamped k(1) show ?case by (cases k) auto
qed

lemma create_pole_verts_keeps:
  "create_pole_verts c b = Inr (c', b') \<Longrightarrow> same_id c c'"
  unfolding create_pole_verts_def same_id_def
  by (auto simp: ebind_eq_Inr verts_new_def split: if_split_asm prod.splits simp del: Let_def)
     (auto simp: Let_def ebind_eq_Inr verts_new_def split: if_split_asm)

lemma create_profile_keeps:
  "create_profile c b ev on = Inr (c', b') \<Longrightarrow> same_id c c'"
  by (auto simp: same_id_def create_profile_def Let_def ebind_eq_Inr split: prod.splits)

lemma reorder_keeps:
  "reorder_edge_verts c = Inr c' \<Longrightarrow> same_id c c'"
  by (auto simp: same_id_def reorder_edge_verts_def Let_def ebind_eq_Inr split: if_splits option.splits)

lemma create_profiles_keeps:
  assumes "create_profiles normals c b = Inr (c', b')"
  shows "same_id c c'"
proof (cases "length (input_edge_verts c) = 0")
  case True with assms show ?thesis by (simp add: create_profiles_def same_id_def)
next
  case False
  with assms obtain c1 where r: "reorder_edge_verts c = Inr c1"
    and l: "for_each
                     (\<lambda>ev (c2, b2). ebind (py_nth normals (ev_i ev))
                                       (\<lambda>other_normal. create_profile c2 b2 ev other_normal))
                     (input_edge_verts c1) (c1, b) = Inr (c', b')"
    by (auto simp: create_profiles_def ebind_eq_Inr)
  have "same_id c (fst (c', b'))"
    using l
  proof (rule for_each_invariant[where P = "\<lambda>t. same_id c (fst t)"])
    show "same_id c (fst (c1, b))" using reorder_keeps[OF r] by simp
  next
    fix ev t t' assume a: "same_id c (fst t)"
      and s: "(case t of (c2, b2) \<Rightarrow> ebind (py_nth normals (ev_i ev))
                                       (\<lambda>other_normal. create_profile c2 b2 ev other_normal)) = Inr t'"
    obtain c2 b2 where t: "t = (c2, b2)" by (cases t)
    obtain c3 b3 where t': "t' = (c3, b3)" by (cases t')
    from s obtain on where "create_profile c2 b2 ev on = Inr (c3, b3)"
      by (auto simp: t t' ebind_eq_Inr)
    from create_profile_keeps[OF this] a show "same_id c (fst t')"
      by (simp add: t t' same_id_def)
  qed
  then show ?thesis by simp
qed

lemma inter_profile_step_shape:
  "\<forall>r. inter_profile_step i (c, b) = Inr r \<longrightarrow> (\<exists>es. fst r = c\<lparr>creased_edges := es\<rparr>)"
proof (intro allI impI)
  fix r assume a: "inter_profile_step i (c, b) = Inr r"
  show "\<exists>es. fst r = c\<lparr>creased_edges := es\<rparr>"
  proof (cases "crease c \<noteq> None")
    case True
    from a obtain xd e1 e2 where "Inr (c\<lparr>creased_edges := creased_edges c @ [e1, e2]\<rparr>, xd) = (Inr r :: error + vert_cap \<times> bmesh)"
      unfolding inter_profile_step_def Let_def prod.case
      apply (simp only: ebind_eq_Inr True if_True not_False_eq_True)
      apply (elim exE conjE)
      apply (rule that)
      apply assumption
      done
    then have "fst r = c\<lparr>creased_edges := creased_edges c @ [e1, e2]\<rparr>" by auto
    then show ?thesis by blast
  next
    case False
    from a obtain xd where "Inr (c, xd) = (Inr r :: error + vert_cap \<times> bmesh)"
      unfolding inter_profile_step_def Let_def prod.case
      apply (simp only: ebind_eq_Inr False if_False not_True_eq_False not_not)
      apply (elim exE conjE)
      apply (rule that)
      apply assumption
      done
    then have "fst r = c\<lparr>creased_edges := creased_edges c\<rparr>" by auto
    then show ?thesis by blast
  qed
qed

lemma inter_profile_step_keeps:
  assumes "inter_profile_step i (c, b) = Inr (c', b')"
  shows "same_id c c'"
proof -
  from inter_profile_step_shape assms obtain es where "fst (c', b') = c\<lparr>creased_edges := es\<rparr>"
    by blast
  then show ?thesis by (simp add: same_id_def)
qed

lemma cap_faces_keeps:
  assumes "cap_faces c b = Inr (c', b')"
  shows "same_id c c'"
proof -
  from assms obtain b1 where i: "create_inter_profile_faces c b1 = Inr (c', b')"
    by (auto simp: cap_faces_def ebind_eq_Inr)
  show ?thesis
  proof (cases "length (input_edge_verts c) < 2")
    case True with i show ?thesis by (simp add: create_inter_profile_faces_def same_id_def)
  next
    case False
    with i have l: "for_each inter_profile_step [0 ..< length (profiles c)] (c, b1) = Inr (c', b')"
      by (simp add: create_inter_profile_faces_def)
    have "same_id c (fst (c', b'))"
      using l
    proof (rule for_each_invariant[where P = "\<lambda>t. same_id c (fst t)"])
      show "same_id c (fst (c, b1))" by (simp add: same_id_def)
    next
      fix i t t' assume a: "same_id c (fst t)" and s: "inter_profile_step i t = Inr t'"
      obtain c2 b2 where t: "t = (c2, b2)" by (cases t)
      obtain c3 b3 where t': "t' = (c3, b3)" by (cases t')
      from inter_profile_step_keeps[OF s[unfolded t t']] a show "same_id c (fst t')"
        by (simp add: t t' same_id_def)
    qed
    then show ?thesis by simp
  qed
qed

lemma VertCap_init_id:
  "VertCap_init co r kw = Inr c \<Longrightarrow> bm c = r \<and> crease c = kw_crease kw"
  by (auto simp: VertCap_init_def Let_def ebind_eq_Inr split: option.splits)

lemma create_vert_caps_ok:
  assumes "create_vert_caps r (ws, bms) = Inr (ws', bms')" and "caps_ok r (kw_crease (kwargs ws)) ws"
  shows "caps_ok r (kw_crease (kwargs ws)) ws' \<and> settings ws' = settings ws \<and> bms' = bms
         \<and> profile_connectors ws' = profile_connectors ws"
proof -
  from assms(1) obtain caps' where
    l: "for_each (\<lambda>co caps. ebind (VertCap_init co r (kwargs ws)) (\<lambda>c. Inr (caps @ [c])))
       (vertices (mesh ws)) (vert_caps ws) = Inr caps'" and ws': "ws' = ws\<lparr>vert_caps := caps'\<rparr>" "bms' = bms"
    by (auto simp: create_vert_caps_def ebind_eq_Inr)
  have "\<forall>c \<in> set caps'. bm c = r \<and> crease c = kw_crease (kwargs ws)"
    using l
  proof (rule for_each_invariant[where P = "\<lambda>caps. \<forall>c \<in> set caps. bm c = r \<and> crease c = kw_crease (kwargs ws)"])
    show "\<forall>c \<in> set (vert_caps ws). bm c = r \<and> crease c = kw_crease (kwargs ws)"
      using assms(2) by (simp add: caps_ok_def)
  next
    fix co t t' assume a: "\<forall>c \<in> set t. bm c = r \<and> crease c = kw_crease (kwargs ws)"
      and s: "ebind (VertCap_init co r (kwargs ws)) (\<lambda>c. Inr (t @ [c])) = Inr t'"
    from s obtain c where c: "VertCap_init co r (kwargs ws) = Inr c" and t': "t' = t @ [c]"
      by (auto simp: ebind_eq_Inr)
    from VertCap_init_id[OF c] a show "\<forall>c \<in> set t'. bm c = r \<and> crease c = kw_crease (kwargs ws)"
      by (simp add: t')
  qed
  with ws' show ?thesis by (simp add: caps_ok_def settings_def)
qed

lemma register_edge_ok:
  assumes "register_edge m e ti other caps = Inr caps'"
    and "\<forall>c \<in> set caps. bm c = r \<and> crease c = v"
  shows "\<forall>c \<in> set caps'. bm c = r \<and> crease c = v"
proof -
  from assms(1) obtain co where lt: "ti < length caps"
    and caps': "caps' = caps[ti := add_edge_vert (caps ! ti) e co other]"
    by (auto simp: register_edge_def ebind_eq_Inr py_nth_def split: if_splits)
  have "bm (add_edge_vert (caps ! ti) e co other) = r \<and> crease (add_edge_vert (caps ! ti) e co other) = v"
    using assms(2) lt by (simp add: add_edge_vert_def)
  with assms(2) show ?thesis
    unfolding caps' using set_update_subset_insert[of caps ti] by blast
qed

lemma add_edges_ok:
  assumes "add_edges_to_vert_caps (ws, bms) = Inr (ws', bms')" and "caps_ok r v ws"
  shows "caps_ok r v ws' \<and> settings ws' = settings ws \<and> bms' = bms
         \<and> profile_connectors ws' = profile_connectors ws"
proof -
  from assms(1) obtain caps' where l: "for_each
              (\<lambda>edge caps.
                 ebind (register_edge (mesh ws) edge
                          (fst (edge_vertices edge)) (snd (edge_vertices edge)) caps)
                   (register_edge (mesh ws) edge
                          (snd (edge_vertices edge)) (fst (edge_vertices edge))))
              (mesh_edges (mesh ws)) (vert_caps ws) = Inr caps'"
    and ws': "ws' = ws\<lparr>vert_caps := caps'\<rparr>" "bms' = bms"
    by (auto simp: add_edges_to_vert_caps_def ebind_eq_Inr)
  have "\<forall>c \<in> set caps'. bm c = r \<and> crease c = v"
    using l
  proof (rule for_each_invariant[where P = "\<lambda>caps. \<forall>c \<in> set caps. bm c = r \<and> crease c = v"])
    show "\<forall>c \<in> set (vert_caps ws). bm c = r \<and> crease c = v"
      using assms(2) by (simp add: caps_ok_def)
  next
    fix e t t' assume a: "\<forall>c \<in> set t. bm c = r \<and> crease c = v"
      and s: "ebind (register_edge (mesh ws) e (fst (edge_vertices e)) (snd (edge_vertices e)) t)
                   (register_edge (mesh ws) e (snd (edge_vertices e)) (fst (edge_vertices e))) = Inr t'"
    from s obtain t1 where s1: "register_edge (mesh ws) e (fst (edge_vertices e)) (snd (edge_vertices e)) t = Inr t1"
      and s2: "register_edge (mesh ws) e (snd (edge_vertices e)) (fst (edge_vertices e)) t1 = Inr t'"
      by (auto simp: ebind_eq_Inr)
    from register_edge_ok[OF s2 register_edge_ok[OF s1 a]]
    show "\<forall>c \<in> set t'. bm c = r \<and> crease c = v" .
  qed
  with ws' show ?thesis by (simp add: caps_ok_def settings_def)
qed

lemma with_cap_ok:
  assumes "with_cap f k (ws, bms) = Inr (ws', bms')" and "caps_ok r v ws"
    and keeps: "\<And>c b c' b'. f c b = Inr (c', b') \<Longrightarrow> same_id c c'"
  shows "caps_ok r v ws' \<and> settings ws' = settings ws \<and> length bms' = length bms
         \<and> profile_connectors ws' = profile_connectors ws"
proof -
  from assms(1) obtain c b c' b' where k: "k < length (vert_caps ws)"
    and c: "c = vert_caps ws ! k" and f: "f c b = Inr (c', b')"
    and ws': "ws' = ws\<lparr>vert_caps := (vert_caps ws)[k := c']\<rparr>" "bms' = bms[bm c := b']"
    by (auto simp: with_cap_def ebind_eq_Inr py_nth_def split: if_splits)
  from keeps[OF f] assms(2) k c have "bm c' = r \<and> crease c' = v"
    by (auto simp: same_id_def caps_ok_def)
  with assms(2) have "\<forall>x \<in> set ((vert_caps ws)[k := c']). bm x = r \<and> crease x = v"
    using set_update_subset_insert[of "vert_caps ws" k] unfolding caps_ok_def by blast
  with ws' show ?thesis by (simp add: caps_ok_def settings_def)
qed

lemma for_each_cap_ok:
  assumes "for_each_cap f w = Inr w'" and "caps_ok r v (fst w)"
    and keeps: "\<And>w1 c b c' b'. f w1 c b = Inr (c', b') \<Longrightarrow> same_id c c'"
  shows "caps_ok r v (fst w') \<and> settings (fst w') = settings (fst w) \<and> length (snd w') = length (snd w)
         \<and> profile_connectors (fst w') = profile_connectors (fst w)"
proof -
  have l: "for_each (\<lambda>k w1. with_cap (f w1) k w1) [0 ..< length (vert_caps (fst w))] w = Inr w'"
    using assms(1) by (simp add: for_each_cap_def)
  show ?thesis
    using l
  proof (rule for_each_invariant[where P = "\<lambda>t. caps_ok r v (fst t) \<and> settings (fst t) = settings (fst w)
        \<and> length (snd t) = length (snd w) \<and> profile_connectors (fst t) = profile_connectors (fst w)"])
    show "caps_ok r v (fst w) \<and> settings (fst w) = settings (fst w) \<and> length (snd w) = length (snd w)
        \<and> profile_connectors (fst w) = profile_connectors (fst w)" using assms(2) by simp
  next
    fix k t t' assume a: "caps_ok r v (fst t) \<and> settings (fst t) = settings (fst w)
        \<and> length (snd t) = length (snd w) \<and> profile_connectors (fst t) = profile_connectors (fst w)"
      and s: "with_cap (f t) k t = Inr t'"
    obtain ws1 bms1 where t: "t = (ws1, bms1)" by (cases t)
    obtain ws2 bms2 where t': "t' = (ws2, bms2)" by (cases t')
    from with_cap_ok[OF s[unfolded t t'], of r v] a keeps
    show "caps_ok r v (fst t') \<and> settings (fst t') = settings (fst w)
        \<and> length (snd t') = length (snd w) \<and> profile_connectors (fst t') = profile_connectors (fst w)"
      by (simp add: t t')
  qed
qed

lemma join_step_crease:
  assumes "join_step vc0 vc1 loop0 loop1 min_i min_i2 mult idx (pc, bms) = Inr (pc', bms')"
  shows "pc_crease pc' = pc_crease pc"
  using assms
  by (auto simp: join_step_def Let_def ebind_eq_Inr split: if_splits)

lemma join_profiles_pc:
  assumes "join_profiles caps pc bms = Inr (pc', bms')"
  shows "pc_bm pc' = pc_bm pc \<and> length bms' = length bms \<and> pc_crease pc' = pc_crease pc"
proof -
  from assms obtain vc0 vc1 loop0 loop1 min_i min_i2 mult where
    "for_each (join_step vc0 vc1 loop0 loop1 min_i min_i2 mult) [0 ..< 4] (pc, bms) = Inr (pc', bms')"
    unfolding join_profiles_def Let_def ebind_eq_Inr by blast
  note l = this
  have "pc_crease (fst (pc', bms')) = pc_crease pc"
    using l
  proof (rule for_each_invariant[where P = "\<lambda>t. pc_crease (fst t) = pc_crease pc"])
    show "pc_crease (fst (pc, bms)) = pc_crease pc" by simp
  next
    fix x t t' assume a: "pc_crease (fst t) = pc_crease pc"
      and s: "join_step vc0 vc1 loop0 loop1 min_i min_i2 mult x t = Inr t'"
    obtain p1 b1 where t: "t = (p1, b1)" by (cases t)
    obtain p2 b2 where t': "t' = (p2, b2)" by (cases t')
    from join_step_crease[OF s[unfolded t t']] a show "pc_crease (fst t') = pc_crease pc"
      by (simp add: t t')
  qed
  with join_loop_faces[OF l] show ?thesis by simp
qed

lemma connect_profiles_ok:
  assumes "connect_profiles r (ws, bms) = Inr (ws', bms')" and "pcs_ok r (kw_crease (kwargs ws)) ws"
  shows "pcs_ok r (kw_crease (kwargs ws)) ws' \<and> vert_caps ws' = vert_caps ws \<and> settings ws' = settings ws
         \<and> length bms' = length bms"
proof -
  have l: "for_each
       (\<lambda>edge (ws1, bms1).
          ebind (join_profiles (vert_caps ws1) (ProfileConnector_init edge r (kwargs ws1)) bms1)
            (\<lambda>(pc, bms2).
               Inr (ws1\<lparr>profile_connectors := profile_connectors ws1 @ [pc]\<rparr>, bms2)))
       (mesh_edges (mesh ws)) (ws, bms) = Inr (ws', bms')"
    using assms(1) by (simp add: connect_profiles_def)
  have "pcs_ok r (kw_crease (kwargs ws)) (fst (ws', bms')) \<and> vert_caps (fst (ws', bms')) = vert_caps ws
        \<and> settings (fst (ws', bms')) = settings ws \<and> length (snd (ws', bms')) = length bms"
    using l
  proof (rule for_each_invariant[where P = "\<lambda>t. pcs_ok r (kw_crease (kwargs ws)) (fst t) \<and> vert_caps (fst t) = vert_caps ws
        \<and> settings (fst t) = settings ws \<and> length (snd t) = length bms"])
    show "pcs_ok r (kw_crease (kwargs ws)) (fst (ws, bms)) \<and> vert_caps (fst (ws, bms)) = vert_caps ws
        \<and> settings (fst (ws, bms)) = settings ws \<and> length (snd (ws, bms)) = length bms"
      using assms(2) by simp
  next
    fix e t t'
    assume a: "pcs_ok r (kw_crease (kwargs ws)) (fst t) \<and> vert_caps (fst t) = vert_caps ws
        \<and> settings (fst t) = settings ws \<and> length (snd t) = length bms"
      and s: "(case t of (ws1, bms1) \<Rightarrow>
          ebind (join_profiles (vert_caps ws1) (ProfileConnector_init e r (kwargs ws1)) bms1)
            (\<lambda>(pc, bms2).
               Inr (ws1\<lparr>profile_connectors := profile_connectors ws1 @ [pc]\<rparr>, bms2))) = Inr t'"
    obtain ws1 bms1 where t: "t = (ws1, bms1)" by (cases t)
    from s obtain pc bms2 where
      j: "join_profiles (vert_caps ws1) (ProfileConnector_init e r (kwargs ws1)) bms1 = Inr (pc, bms2)"
      and t': "t' = (ws1\<lparr>profile_connectors := profile_connectors ws1 @ [pc]\<rparr>, bms2)"
      by (auto simp: t ebind_eq_Inr)
    from join_profiles_pc[OF j] have "pc_bm pc = r" "length bms2 = length bms1" "pc_crease pc = kw_crease (kwargs ws1)"
      by (simp_all add: ProfileConnector_init_def)
    with a show "pcs_ok r (kw_crease (kwargs ws)) (fst t') \<and> vert_caps (fst t') = vert_caps ws
        \<and> settings (fst t') = settings ws \<and> length (snd t') = length bms"
      by (simp add: t t' pcs_ok_def settings_def)
  qed
  then show ?thesis by simp
qed

lemma stamp_frame:
  assumes "for_each (\<lambda>edge b1. set_crease b1 edge val) es b = Inr b'"
  shows "bm_crease b' k = bm_crease b k \<or> (Some k \<in> set es \<and> bm_crease b' k = val)"
  using assms
proof (induction es arbitrary: b)
  case Nil then show ?case by simp
next
  case (Cons e es)
  from Cons.prems obtain b1 where e: "set_crease b e val = Inr b1"
    and rest: "for_each (\<lambda>edge b1. set_crease b1 edge val) es b1 = Inr b'"
    by (auto simp: ebind_eq_Inr)
  from e obtain j x where j: "e = Some j" "val = Some x" "bm_crease b1 = (bm_crease b)(j \<mapsto> x)"
    by (auto simp: set_crease_def split: option.splits if_splits)
  from Cons.IH[OF rest] j show ?case by (cases "k = j") auto
qed

lemma with_cap_stamp:
  assumes "with_cap (\<lambda>c b. ebind (crease_edges c b) (\<lambda>b'. Inr (c, b'))) k (ws, bms) = Inr (ws', bms')"
    and "caps_ok r v ws"
  shows "ws' = ws \<and> length bms' = length bms \<and> r < length bms
         \<and> (\<forall>j. bm_crease (bms ! r) j = v \<longrightarrow> bm_crease (bms' ! r) j = v)
         \<and> (\<forall>e \<in> set (creased_edges (vert_caps ws ! k)). \<exists>j. e = Some j \<and> bm_crease (bms' ! r) j = v)"
proof -
  from assms(1) obtain b' where k: "k < length (vert_caps ws)"
    and d: "bm (vert_caps ws ! k) < length bms"
    and f: "crease_edges (vert_caps ws ! k) (bms ! bm (vert_caps ws ! k)) = Inr b'"
    and ws': "ws' = ws\<lparr>vert_caps := (vert_caps ws)[k := vert_caps ws ! k]\<rparr>"
             "bms' = bms[bm (vert_caps ws ! k) := b']"
    by (auto simp: with_cap_def ebind_eq_Inr py_nth_def bm_deref_def split: if_splits)
  from assms(2) k have id: "bm (vert_caps ws ! k) = r" "crease (vert_caps ws ! k) = v"
    by (auto simp: caps_ok_def)
  from stamp_all[OF f[unfolded crease_edges_def]] d ws' id show ?thesis by simp
qed

lemma cap_loop_stamps:
  assumes l: "for_each (\<lambda>k w1. with_cap (\<lambda>c b. ebind (crease_edges c b) (\<lambda>b'. Inr (c, b'))) k w1)
                [0 ..< length (vert_caps ws)] (ws, bms) = Inr (ws', bms')"
    and ok: "caps_ok r v ws"
  shows "ws' = ws \<and> length bms' = length bms
         \<and> (\<forall>c \<in> set (vert_caps ws). \<forall>e \<in> set (creased_edges c).
               \<exists>j. e = Some j \<and> bm_crease (bms' ! r) j = v)"
proof -
  let ?f = "\<lambda>k w1. with_cap (\<lambda>c b. ebind (crease_edges c b) (\<lambda>b'. Inr (c, b'))) k w1"
  let ?I = "\<lambda>t. fst t = ws \<and> length (snd t) = length bms"
  have inv: "?I t'" if i: "?I t" and st: "?f y t = Inr t'" for y t t'
  proof -
    obtain bms1 where t: "t = (ws, bms1)" using i by (cases t) auto
    obtain ws2 bms2 where t': "t' = (ws2, bms2)" by (cases t')
    from with_cap_stamp[OF st[unfolded t t'] ok] i show ?thesis by (simp add: t t')
  qed
  have "?I (ws', bms')"
    using l by (rule for_each_invariant[where P = ?I]) (simp, rule inv)
  moreover have "\<exists>j. e = Some j \<and> bm_crease (bms' ! r) j = v"
    if c: "c \<in> set (vert_caps ws)" and e: "e \<in> set (creased_edges c)" for c e
  proof -
    from c obtain k where k: "k < length (vert_caps ws)" "vert_caps ws ! k = c"
      by (auto simp: in_set_conv_nth)
    let ?P = "\<lambda>t. \<exists>j. e = Some j \<and> bm_crease (snd t ! r) j = v"
    have "?P (ws', bms')"
      using l
    proof (rule for_each_establish[where I = ?I and P = ?P and x = k])
      show "?I (ws, bms)" by simp
      show "k \<in> set [0 ..< length (vert_caps ws)]" using k by simp
    next
      fix y t t' assume "?I t" "?f y t = Inr t'" then show "?I t'" by (rule inv)
    next
      fix t t' assume a: "?I t" and s: "?f k t = Inr t'"
      obtain bms1 where t: "t = (ws, bms1)" using a by (cases t) auto
      obtain ws2 bms2 where t': "t' = (ws2, bms2)" by (cases t')
      from with_cap_stamp[OF s[unfolded t t'] ok] k e show "?P t'" by (auto simp: t')
    next
      fix y t t' assume a: "?I t" and p: "?P t" and s: "?f y t = Inr t'"
      obtain bms1 where t: "t = (ws, bms1)" using a by (cases t) auto
      obtain ws2 bms2 where t': "t' = (ws2, bms2)" by (cases t')
      from with_cap_stamp[OF s[unfolded t t'] ok] p show "?P t'" by (auto simp: t t')
    qed
    then show ?thesis by simp
  qed
  ultimately show ?thesis by simp
qed

lemma with_connector_stamp:
  assumes "with_connector k (ws, bms) = Inr (ws', bms')" and "pcs_ok r v ws"
  shows "ws' = ws \<and> length bms' = length bms \<and> r < length bms
         \<and> (\<forall>j. bm_crease (bms ! r) j = Some 1 \<longrightarrow> bm_crease (bms' ! r) j = Some 1)
         \<and> (\<forall>e \<in> set (pc_creased_edges (profile_connectors ws ! k)).
               \<exists>j. e = Some j \<and> bm_crease (bms' ! r) j = Some 1)
         \<and> (\<forall>j. bm_crease (bms' ! r) j = bm_crease (bms ! r) j
               \<or> (Some j \<in> set (pc_creased_edges (profile_connectors ws ! k))
                   \<and> bm_crease (bms' ! r) j = Some 1))"
proof -
  from assms(1) obtain b' where k: "k < length (profile_connectors ws)"
    and d: "pc_bm (profile_connectors ws ! k) < length bms"
    and f: "pc_crease_edges (profile_connectors ws ! k) (bms ! pc_bm (profile_connectors ws ! k)) = Inr b'"
    and ws': "ws' = ws" "bms' = bms[pc_bm (profile_connectors ws ! k) := b']"
    by (auto simp: with_connector_def ebind_eq_Inr py_nth_def bm_deref_def split: if_splits)
  from assms(2) k have id: "pc_bm (profile_connectors ws ! k) = r"
    by (auto simp: pcs_ok_def)
  from stamp_all[OF f[unfolded pc_crease_edges_def]] stamp_frame[OF f[unfolded pc_crease_edges_def]]
    d ws' id show ?thesis by simp
qed

lemma connector_loop_stamps:
  assumes l: "for_each with_connector [0 ..< length (profile_connectors ws)] (ws, bms) = Inr (ws', bms')"
    and ok: "pcs_ok r v ws"
  shows "ws' = ws \<and> length bms' = length bms
         \<and> (\<forall>pc \<in> set (profile_connectors ws). \<forall>e \<in> set (pc_creased_edges pc).
               \<exists>j. e = Some j \<and> bm_crease (bms' ! r) j = Some 1)
         \<and> (\<forall>j. bm_crease (bms' ! r) j = bm_crease (bms ! r) j
               \<or> ((\<exists>pc \<in> set (profile_connectors ws). Some j \<in> set (pc_creased_edges pc))
                   \<and> bm_crease (bms' ! r) j = Some 1))"
proof -
  let ?I = "\<lambda>t. fst t = ws \<and> length (snd t) = length bms"
  have inv: "?I t'" if i: "?I t" and st: "with_connector y t = Inr t'" for y t t'
  proof -
    obtain bms1 where t: "t = (ws, bms1)" using i by (cases t) auto
    obtain ws2 bms2 where t': "t' = (ws2, bms2)" by (cases t')
    from with_connector_stamp[OF st[unfolded t t'] ok] i show ?thesis by (simp add: t t')
  qed
  have "?I (ws', bms')"
    using l by (rule for_each_invariant[where P = ?I]) (simp, rule inv)
  moreover have "\<exists>j. e = Some j \<and> bm_crease (bms' ! r) j = Some 1"
    if c: "pc \<in> set (profile_connectors ws)" and e: "e \<in> set (pc_creased_edges pc)" for pc e
  proof -
    from c obtain k where k: "k < length (profile_connectors ws)" "profile_connectors ws ! k = pc"
      by (auto simp: in_set_conv_nth)
    let ?P = "\<lambda>t. \<exists>j. e = Some j \<and> bm_crease (snd t ! r) j = Some 1"
    have "?P (ws', bms')"
      using l
    proof (rule for_each_establish[where I = ?I and P = ?P and x = k])
      show "?I (ws, bms)" by simp
      show "k \<in> set [0 ..< length (profile_connectors ws)]" using k by simp
    next
      fix y t t' assume "?I t" "with_connector y t = Inr t'" then show "?I t'" by (rule inv)
    next
      fix t t' assume a: "?I t" and s: "with_connector k t = Inr t'"
      obtain bms1 where t: "t = (ws, bms1)" using a by (cases t) auto
      obtain ws2 bms2 where t': "t' = (ws2, bms2)" by (cases t')
      from with_connector_stamp[OF s[unfolded t t'] ok] k e show "?P t'" by (auto simp: t')
    next
      fix y t t' assume a: "?I t" and p: "?P t" and s: "with_connector y t = Inr t'"
      obtain bms1 where t: "t = (ws, bms1)" using a by (cases t) auto
      obtain ws2 bms2 where t': "t' = (ws2, bms2)" by (cases t')
      from with_connector_stamp[OF s[unfolded t t'] ok] p show "?P t'" by (auto simp: t t')
    qed
    then show ?thesis by simp
  qed
  moreover have "bm_crease (bms' ! r) j = bm_crease (bms ! r) j
               \<or> ((\<exists>pc \<in> set (profile_connectors ws). Some j \<in> set (pc_creased_edges pc))
                   \<and> bm_crease (bms' ! r) j = Some 1)" for j
  proof -
    let ?R = "\<lambda>t. fst t = ws \<and> (bm_crease (snd t ! r) j = bm_crease (bms ! r) j
               \<or> ((\<exists>pc \<in> set (profile_connectors ws). Some j \<in> set (pc_creased_edges pc))
                   \<and> bm_crease (snd t ! r) j = Some 1))"
    have "?R (ws', bms')"
      using l
    proof (rule for_each_invariant[where P = ?R])
      show "?R (ws, bms)" by simp
    next
      fix y t t' assume a: "?R t" and s: "with_connector y t = Inr t'"
      obtain bms1 where t: "t = (ws, bms1)" using a by (cases t) auto
      obtain ws2 bms2 where t': "t' = (ws2, bms2)" by (cases t')
      from s have y: "y < length (profile_connectors ws)"
        by (auto simp: t with_connector_def ebind_eq_Inr py_nth_def split: if_splits)
      then have mem: "profile_connectors ws ! y \<in> set (profile_connectors ws)" by simp
      note w = with_connector_stamp[OF s[unfolded t t'] ok]
      from w have f: "bm_crease (bms2 ! r) j = bm_crease (bms1 ! r) j
               \<or> (Some j \<in> set (pc_creased_edges (profile_connectors ws ! y))
                   \<and> bm_crease (bms2 ! r) j = Some 1)" by blast
      from w have k1: "bm_crease (bms1 ! r) j = Some 1 \<longrightarrow> bm_crease (bms2 ! r) j = Some 1" by blast
      from w have "ws2 = ws" by simp
      with a f k1 mem show "?R t'" unfolding t t' fst_conv snd_conv by metis
    qed
    then show ?thesis by simp
  qed
  ultimately show ?thesis by simp
qed

lemma crease_phase_stamps:
  assumes run: "ws_crease_edges (ws, bms) = Inr (ws', bms')"
    and layer: "crease_layer ws \<noteq> None"
    and caps: "caps_ok r v ws" and pcs: "pcs_ok r u ws"
  shows "ws' = ws \<and> length bms' = length bms
         \<and> (\<forall>pc \<in> set (profile_connectors ws). \<forall>e \<in> set (pc_creased_edges pc).
               \<exists>j. e = Some j \<and> bm_crease (bms' ! r) j = Some 1)
         \<and> (\<forall>c \<in> set (vert_caps ws). \<forall>e \<in> set (creased_edges c).
               \<exists>j. e = Some j \<and> (bm_crease (bms' ! r) j = v
                  \<or> ((\<exists>pc \<in> set (profile_connectors ws). Some j \<in> set (pc_creased_edges pc))
                       \<and> bm_crease (bms' ! r) j = Some 1)))"
proof -
  from run layer obtain w1 where
    l1: "for_each_cap (\<lambda>w1 c b. ebind (crease_edges c b) (\<lambda>b'. Inr (c, b'))) (ws, bms) = Inr w1"
    and l2: "for_each with_connector [0 ..< length (profile_connectors (fst w1))] w1 = Inr (ws', bms')"
    by (auto simp: ws_crease_edges_def ebind_eq_Inr)
  obtain ws1 bms1 where w1: "w1 = (ws1, bms1)" by (cases w1)
  from l1 have l1': "for_each (\<lambda>k w1. with_cap (\<lambda>c b. ebind (crease_edges c b) (\<lambda>b'. Inr (c, b'))) k w1)
                [0 ..< length (vert_caps ws)] (ws, bms) = Inr (ws1, bms1)"
    by (simp add: for_each_cap_def w1)
  note a = cap_loop_stamps[OF l1' caps]
  then have ws1: "ws1 = ws" by simp
  from l2 have l2': "for_each with_connector [0 ..< length (profile_connectors ws)] (ws, bms1) = Inr (ws', bms')"
    by (simp add: w1 ws1)
  note b = connector_loop_stamps[OF l2' pcs]
  have "\<exists>j. e = Some j \<and> (bm_crease (bms' ! r) j = v
                  \<or> ((\<exists>pc \<in> set (profile_connectors ws). Some j \<in> set (pc_creased_edges pc))
                       \<and> bm_crease (bms' ! r) j = Some 1))"
    if c: "c \<in> set (vert_caps ws)" and e: "e \<in> set (creased_edges c)" for c e
  proof -
    from a c e obtain j where j: "e = Some j" "bm_crease (bms1 ! r) j = v" by blast
    from b have "bm_crease (bms' ! r) j = bm_crease (bms1 ! r) j
               \<or> ((\<exists>pc \<in> set (profile_connectors ws). Some j \<in> set (pc_creased_edges pc))
                   \<and> bm_crease (bms' ! r) j = Some 1)" by blast
    with j show ?thesis by auto
  qed
  with a b show ?thesis by simp
qed

lemma build_before_crease:
  assumes c: "create_vert_caps r (ws0, bms0) = Inr w1"
    and a: "add_edges_to_vert_caps w1 = Inr w2"
    and p: "create_vert_cap_poles w2 = Inr w3"
    and q: "create_vert_cap_profiles w3 = Inr w4"
    and f: "create_vert_cap_faces w4 = Inr w5"
    and j: "connect_profiles r w5 = Inr w6"
    and caps: "caps_ok r (kw_crease (kwargs ws0)) ws0" and pcs: "pcs_ok r (kw_crease (kwargs ws0)) ws0"
  shows "caps_ok r (kw_crease (kwargs ws0)) (fst w6) \<and> pcs_ok r (kw_crease (kwargs ws0)) (fst w6)
         \<and> settings (fst w6) = settings ws0 \<and> length (snd w6) = length bms0"
proof -
  let ?v = "kw_crease (kwargs ws0)"
  obtain ws1 bms1 where w1: "w1 = (ws1, bms1)" by (cases w1)
  obtain ws2 bms2 where w2: "w2 = (ws2, bms2)" by (cases w2)
  obtain ws5 bms5 where w5: "w5 = (ws5, bms5)" by (cases w5)
  obtain ws6 bms6 where w6: "w6 = (ws6, bms6)" by (cases w6)
  note s1 = create_vert_caps_ok[OF c[unfolded w1] caps]
  from s1 have c1: "caps_ok r ?v ws1" by simp
  note s2 = add_edges_ok[OF a[unfolded w1 w2] c1]
  from s2 have c2: "caps_ok r ?v (fst w2)" by (simp add: w2)
  note s3 = for_each_cap_ok[OF p[unfolded create_vert_cap_poles_def] c2 create_pole_verts_keeps]
  from s3 have c3: "caps_ok r ?v (fst w3)" by simp
  note s4 = for_each_cap_ok[OF q[unfolded create_vert_cap_profiles_def] c3 create_profiles_keeps]
  from s4 have c4: "caps_ok r ?v (fst w4)" by simp
  note s5 = for_each_cap_ok[OF f[unfolded create_vert_cap_faces_def] c4 cap_faces_keeps]
  from s1 s2 s3 s4 s5 pcs have p5: "pcs_ok r (kw_crease (kwargs ws5)) ws5" by (simp add: pcs_ok_def w2 w5 settings_def)
  note s6 = connect_profiles_ok[OF j[unfolded w5 w6] p5]
  from s1 s2 s3 s4 s5 s6 show ?thesis by (simp add: w2 w5 w6 caps_ok_def settings_def)
qed

text \<open>
  C8: in a build on a new WireSkin with the crease value \<open>v\<close> configured, every cap
  and every connector holds \<open>v\<close> as its attribute \<open>crease\<close>, and when
  \<open>create_mesh\<close> returns, its crease phase \<open>ws_crease_edges\<close> has left, in the mesh
  returned, the value 1.0 on every edge a connector recorded, whatever \<open>v\<close> is, and
  the value \<open>v\<close> on every edge a cap recorded, unless a connector recorded that edge as
  well: the connectors write after the caps.
\<close>

theorem crease_phase_values:
  assumes run: "create_mesh (WireSkin_init m kw, bms0) = Inr (me, (ws', bms'))"
    and v: "kw_crease kw = Some v"
  shows "(\<forall>c \<in> set (vert_caps ws'). crease c = Some v \<and>
           (\<forall>e \<in> set (creased_edges c). \<exists>k. e = Some k \<and>
              (bm_crease me k = Some v
               \<or> ((\<exists>pc \<in> set (profile_connectors ws'). Some k \<in> set (pc_creased_edges pc))
                   \<and> bm_crease me k = Some 1))))
       \<and> (\<forall>pc \<in> set (profile_connectors ws'). pc_crease pc = Some v \<and>
           (\<forall>e \<in> set (pc_creased_edges pc). \<exists>k. e = Some k \<and> bm_crease me k = Some 1))"
proof -
  let ?r = "length bms0"
  let ?ws0 = "(WireSkin_init m kw)\<lparr>crease_layer := Some ?r\<rparr>"
  let ?b0 = "bmesh_new\<lparr>bm_crease_layer := True\<rparr>"
  from run v have "ebind (create_vert_caps ?r (?ws0, bms0 @ [?b0])) (\<lambda>w1.
        ebind (add_edges_to_vert_caps w1) (\<lambda>w2.
        ebind (create_vert_cap_poles w2) (\<lambda>w3.
        ebind (create_vert_cap_profiles w3) (\<lambda>w4.
        ebind (create_vert_cap_faces w4) (\<lambda>w5.
        ebind (connect_profiles ?r w5) (\<lambda>w6.
        ebind (ws_crease_edges w6) (\<lambda>(ws7, bms7).
        ebind (bm_deref bms7 ?r) (\<lambda>me.
        Inr (me, (ws7, bms7[?r := me\<lparr>bm_valid := False\<rparr>])))))))))) = Inr (me, (ws', bms'))"
    by (simp add: create_mesh_def Let_def WireSkin_init_def)
  then obtain w1 w2 w3 w4 w5 w6 w7 where
    c: "create_vert_caps ?r (?ws0, bms0 @ [?b0]) = Inr w1"
    and a: "add_edges_to_vert_caps w1 = Inr w2"
    and p: "create_vert_cap_poles w2 = Inr w3"
    and q: "create_vert_cap_profiles w3 = Inr w4"
    and f: "create_vert_cap_faces w4 = Inr w5"
    and j: "connect_profiles ?r w5 = Inr w6"
    and s: "ws_crease_edges w6 = Inr w7"
    and e: "(case w7 of (ws7, bms7) \<Rightarrow> ebind (bm_deref bms7 ?r) (\<lambda>me.
        Inr (me, (ws7, bms7[?r := me\<lparr>bm_valid := False\<rparr>])))) = Inr (me, (ws', bms'))"
    unfolding ebind_eq_Inr by blast
  obtain ws6 bms6 where w6: "w6 = (ws6, bms6)" by (cases w6)
  obtain ws7 bms7 where w7: "w7 = (ws7, bms7)" by (cases w7)
  from e have me: "me = bms7 ! ?r" "ws' = ws7"
    by (auto simp: w7 ebind_eq_Inr bm_deref_def split: if_splits)
  have k0: "kw_crease (kwargs ?ws0) = Some v" using v by (simp add: WireSkin_init_def)
  have "caps_ok ?r (kw_crease (kwargs ?ws0)) ?ws0" "pcs_ok ?r (kw_crease (kwargs ?ws0)) ?ws0"
    by (simp_all add: caps_ok_def pcs_ok_def WireSkin_init_def)
  from build_before_crease[OF c a p q f j this] k0
  have caps: "caps_ok ?r (Some v) ws6" and pcs: "pcs_ok ?r (Some v) ws6"
    and layer: "crease_layer ws6 \<noteq> None"
    by (simp_all add: w6 settings_def WireSkin_init_def)
  note st = crease_phase_stamps[OF s[unfolded w6 w7] layer caps pcs]
  from st have same: "ws7 = ws6" by simp
  from st caps pcs show ?thesis
    unfolding me same caps_ok_def pcs_ok_def by blast
qed

theorem crease_phase_values_witness:
  "\<exists>me ws' bms'.
     create_mesh (WireSkin_init mesh_tee (kw_one\<lparr>kw_crease := Some (1 / 2)\<rparr>), []) = Inr (me, (ws', bms'))
     \<and> map crease (vert_caps ws') = replicate 5 (Some (1 / 2))
     \<and> map (\<lambda>c. map (\<lambda>e. bm_crease me (the e)) (creased_edges c)) (vert_caps ws')
         = [[Some (1 / 2), Some (1 / 2), Some (1 / 2), Some (1 / 2), Some (1 / 2), Some (1 / 2)],
            [], [], [], []]
     \<and> map pc_crease (profile_connectors ws') = replicate 3 (Some (1 / 2))
     \<and> map (\<lambda>pc. map (\<lambda>e. bm_crease me (the e)) (pc_creased_edges pc)) (profile_connectors ws')
         = replicate 3 (replicate 4 (Some 1))"
proof -
  let ?W = "(WireSkin_init mesh_tee (kw_one\<lparr>kw_crease := Some (1 / 2)\<rparr>), [])"
  have E: "case create_mesh ?W of Inl x \<Rightarrow> False
     | Inr (me, (ws', bms')) \<Rightarrow>
        map (\<lambda>c. map (\<lambda>e. bm_crease me (the e)) (creased_edges c)) (vert_caps ws')
         = [[Some (1 / 2), Some (1 / 2), Some (1 / 2), Some (1 / 2), Some (1 / 2), Some (1 / 2)],
            [], [], [], []]
        \<and> map (length \<circ> pc_creased_edges) (profile_connectors ws') = [4, 4, 4]"
    by (simp add: build_eval2 half_ex mesh_tee_def cong: ebind_weak_cong for_each_weak_cong)
  obtain x where x: "create_mesh ?W = Inr x"
    using E by (cases "create_mesh ?W") simp_all
  obtain me ws' bms' where run: "create_mesh ?W = Inr (me, (ws', bms'))"
    using x by (cases x) simp
  from E have caps: "map (\<lambda>c. map (\<lambda>e. bm_crease me (the e)) (creased_edges c)) (vert_caps ws')
         = [[Some (1 / 2), Some (1 / 2), Some (1 / 2), Some (1 / 2), Some (1 / 2), Some (1 / 2)],
            [], [], [], []]"
    and pcs: "map (length \<circ> pc_creased_edges) (profile_connectors ws') = [4, 4, 4]"
    unfolding run by simp_all
  have kv: "kw_crease (kw_one\<lparr>kw_crease := Some (1 / 2)\<rparr>) = Some (1 / 2)" by simp
  note T = crease_phase_values[OF run kv]
  from arg_cong[OF caps, of length] have n5: "length (vert_caps ws') = 5" by simp
  from arg_cong[OF pcs, of length] have n3: "length (profile_connectors ws') = 3" by simp
  from T have "\<forall>c \<in> set (vert_caps ws'). crease c = Some (1 / 2)" by blast
  from map_all_const[OF this] n5
  have g1: "map crease (vert_caps ws') = replicate 5 (Some (1 / 2))" by simp
  from T have "\<forall>pc \<in> set (profile_connectors ws'). pc_crease pc = Some (1 / 2)" by blast
  from map_all_const[OF this] n3
  have g2: "map pc_crease (profile_connectors ws') = replicate 3 (Some (1 / 2))" by simp
  have "\<forall>pc \<in> set (profile_connectors ws').
          map (\<lambda>e. bm_crease me (the e)) (pc_creased_edges pc) = replicate 4 (Some 1)"
  proof
    fix pc assume pc: "pc \<in> set (profile_connectors ws')"
    with T have "\<forall>e \<in> set (pc_creased_edges pc). \<exists>k. e = Some k \<and> bm_crease me k = Some 1"
      by blast
    then have "\<forall>e \<in> set (pc_creased_edges pc). bm_crease me (the e) = Some 1" by auto
    from map_all_const[OF this]
    have m: "map (\<lambda>e. bm_crease me (the e)) (pc_creased_edges pc)
             = replicate (length (pc_creased_edges pc)) (Some 1)" .
    from pc have "length (pc_creased_edges pc) \<in> set (map (length \<circ> pc_creased_edges) (profile_connectors ws'))"
      by simp
    then have "length (pc_creased_edges pc) = 4" unfolding pcs by simp
    with m show "map (\<lambda>e. bm_crease me (the e)) (pc_creased_edges pc) = replicate 4 (Some 1)"
      by simp
  qed
  from map_all_const[OF this] n3
  have g3: "map (\<lambda>pc. map (\<lambda>e. bm_crease me (the e)) (pc_creased_edges pc)) (profile_connectors ws')
         = replicate 3 (replicate 4 (Some 1))" by simp
  show ?thesis
    by (intro exI[of _ me] exI[of _ ws'] exI[of _ bms'] conjI) (rule run g1 caps g2 g3)+
qed

subsection \<open>Degenerate vertices\<close>

text \<open>
  C4 (code): on a straight wire of two edges, with every size given, the average edge
  direction of the middle vertex is zero, so that vertex gets no normal, and the build
  raises TypeError: the profile of the first vertex blends with the missing normal.
\<close>

theorem straight_wire_build_raises:
  "magnitude (diff_average [normalized (vsub (- 1, 0, 0) (0, 0, 0)),
                            normalized (vsub (1, 0, 0) (0, 0, 0))]) < 0.0000001
   \<and> create_mesh (WireSkin_init mesh_line kw_unit, []) = Inl TypeError"
  by (simp add: build_eval mesh_line_def cong: ebind_weak_cong for_each_weak_cong)

subsection \<open>Profiles and edges\<close>

text \<open>
  C7 (code): in \<open>mesh_hub\<close> vertex 0 has degree 4, but after the profile phase its cap
  holds 3 profiles and 3 edge vertices, and its map has no profile for edge 1, whose other
  end does have one: the edges to \<open>(0, 1, 0)\<close> and \<open>(0, 2, 0)\<close> have the same angle, and
  the dictionary of \<open>reorder_edge_verts\<close> keeps one edge per angle.
\<close>

theorem hub_loses_an_edge:
  "degree mesh_hub 0 = 4
   \<and> map_sum id
        (\<lambda>w. (length (profiles (vert_caps (fst w) ! 0)),
              length (input_edge_verts (vert_caps (fst w) ! 0)),
              edge_profile_map (vert_caps (fst w) ! 0) 1,
              map_option length (edge_profile_map (vert_caps (fst w) ! 2) 1)))
        (profile_phase mesh_hub kw_unit)
       = Inr (3, 3, None, Some 4)"
  by (simp add: build_eval mesh_hub_def degree_def cong: ebind_weak_cong for_each_weak_cong)

text \<open>
  C2 (code): the build of \<open>mesh_hub\<close> raises KeyError. The connector of edge 1 looks for
  the profile of that edge in the cap of vertex 0, which has none (the defect shown for the
  profile phase above), so this edge gets no quad at all.
\<close>

theorem hub_build_raises_KeyError:
  "create_mesh (WireSkin_init mesh_hub kw_unit, []) = Inl KeyError"
  by (simp add: build_eval mesh_hub_def cong: ebind_weak_cong for_each_weak_cong)

subsection \<open>Counts per vertex\<close>

text \<open>
  C1 (code): in \<open>mesh_hub\<close> vertex 0 has degree 4 and the four other vertices degree 1.
  After the face phase the cap of vertex 0 has 2 poles but only 3 profiles, and the bmesh
  holds 31 faces: 15 for vertex 0 (two per profile and three per pair of neighbouring
  profiles, for 3 profiles) and 4 for each of the other vertices. The counts of the claim
  for degree 4 would be 4 profiles and 20 faces.
\<close>

theorem hub_cap_counts:
  "degree mesh_hub 0 = 4
   \<and> map_sum id
        (\<lambda>w. (length (poles (vert_caps (fst w) ! 0)),
              length (profiles (vert_caps (fst w) ! 0)),
              length (bm_faces (snd w ! 0))))
        (face_phase mesh_hub kw_unit)
       = Inr (2, 3, 31)"
  by (simp add: build_eval mesh_hub_def degree_def cong: ebind_weak_cong for_each_weak_cong)

end
